theory Spec2Isabelle
  imports Main
begin

section \<open>Python values, classes and exceptions\<close>

text \<open>
  The values that travel through clitool2: defaults of parameters, parsed command line
  values, arguments and return values of wrapped callables. A dictionary is an association
  list in insertion order; a float carries mantissa and binary exponent (only its runtime
  type is ever inspected); \<open>PObj\<close> is an instance of a class unrelated to the built-in
  ones below, named by its class.
\<close>

datatype pyval =
    PNone
  | PBool bool
  | PInt int
  | PFloat int int
  | PStr string
  | PDateTime string
  | PDate string
  | PTuple "pyval list"
  | PList "pyval list"
  | PDict "(string \<times> pyval) list"
  | PObj string

datatype pyclass =
    Cls_NoneType | Cls_bool | Cls_int | Cls_float | Cls_str | Cls_datetime | Cls_date
  | Cls_tuple | Cls_list | Cls_dict | Cls_other string

fun type_of :: "pyval \<Rightarrow> pyclass" where
  "type_of PNone = Cls_NoneType"
| "type_of (PBool _) = Cls_bool"
| "type_of (PInt _) = Cls_int"
| "type_of (PFloat _ _) = Cls_float"
| "type_of (PStr _) = Cls_str"
| "type_of (PDateTime _) = Cls_datetime"
| "type_of (PDate _) = Cls_date"
| "type_of (PTuple _) = Cls_tuple"
| "type_of (PList _) = Cls_list"
| "type_of (PDict _) = Cls_dict"
| "type_of (PObj n) = Cls_other n"

text \<open>
  The subclass relation of the built-in classes: \<open>bool\<close> derives from \<open>int\<close> and
  \<open>datetime.datetime\<close> from \<open>datetime.date\<close>.
\<close>

definition issubclass :: "pyclass \<Rightarrow> pyclass \<Rightarrow> bool" where
  "issubclass c d \<longleftrightarrow>
     c = d \<or> (c = Cls_bool \<and> d = Cls_int) \<or> (c = Cls_datetime \<and> d = Cls_date)"

definition isinstance :: "pyval \<Rightarrow> pyclass \<Rightarrow> bool" where
  "isinstance v c \<longleftrightarrow> issubclass (type_of v) c"

text \<open>Truth value of an object, as \<open>if x\<close> and \<open>not x\<close> test it.\<close>

fun truthy :: "pyval \<Rightarrow> bool" where
  "truthy PNone = False"
| "truthy (PBool b) = b"
| "truthy (PInt i) = (i \<noteq> 0)"
| "truthy (PFloat m e) = (m \<noteq> 0)"
| "truthy (PStr s) = (s \<noteq> [])"
| "truthy (PTuple xs) = (xs \<noteq> [])"
| "truthy (PList xs) = (xs \<noteq> [])"
| "truthy (PDict kvs) = (kvs \<noteq> [])"
| "truthy _ = True"

text \<open>
  Exceptions: the class and the message. \<open>SystemExit\<close> (raised by \<open>sys.exit\<close> and by
  argparse on a usage error or after printing help; its message is the exit status),
  \<open>KeyboardInterrupt\<close> and \<open>GeneratorExit\<close> derive from \<open>BaseException\<close> only, every other
  built-in one from \<open>Exception\<close>. \<open>UserException\<close> is a class the application derives
  from \<open>Exception\<close>, \<open>UserBaseException\<close> one it derives from \<open>BaseException\<close> directly.
\<close>

datatype exc_class =
    ValueError | TypeError | IndexError | AttributeError | KeyError | OverflowError
  | ArgumentError
  | SystemExit | KeyboardInterrupt | GeneratorExit
  | UserException string | UserBaseException string
  | OutsideModel

datatype exn = Exn (exc_type: exc_class) (exc_value: string)

text \<open>
  \<open>OutsideModel\<close> is not a Python exception. It marks a command line whose treatment by
  the standard library is not modelled here (see the section on argparse); it is never
  caught.
\<close>

fun derives_Exception :: "exc_class \<Rightarrow> bool" where
  "derives_Exception SystemExit = False"
| "derives_Exception KeyboardInterrupt = False"
| "derives_Exception GeneratorExit = False"
| "derives_Exception (UserBaseException _) = False"
| "derives_Exception OutsideModel = False"
| "derives_Exception _ = True"

section \<open>Strings\<close>

text \<open>
  Text is ASCII: a character above 127 is treated as uncased, not white space and not a
  word character. The string methods follow Python 3's \<open>str\<close>.
\<close>

definition ascii_uppercase :: string where
  "ascii_uppercase = ''ABCDEFGHIJKLMNOPQRSTUVWXYZ''"

definition ascii_lowercase :: string where
  "ascii_lowercase = ''abcdefghijklmnopqrstuvwxyz''"

definition digits :: string where
  "digits = ''0123456789''"

definition isupper_ch :: "char \<Rightarrow> bool" where
  "isupper_ch c \<longleftrightarrow> c \<in> set ascii_uppercase"

definition islower_ch :: "char \<Rightarrow> bool" where
  "islower_ch c \<longleftrightarrow> c \<in> set ascii_lowercase"

definition iscased_ch :: "char \<Rightarrow> bool" where
  "iscased_ch c \<longleftrightarrow> isupper_ch c \<or> islower_ch c"

definition lower_ch :: "char \<Rightarrow> char" where
  "lower_ch c =
     (case map_of (zip ascii_uppercase ascii_lowercase) c of Some d \<Rightarrow> d | None \<Rightarrow> c)"

definition upper_ch :: "char \<Rightarrow> char" where
  "upper_ch c =
     (case map_of (zip ascii_lowercase ascii_uppercase) c of Some d \<Rightarrow> d | None \<Rightarrow> c)"

definition lower :: "string \<Rightarrow> string" where
  "lower s = map lower_ch s"

text \<open>
  \<open>str.title()\<close>: a cased character is upper-cased when the character before it is not
  cased (or there is none) and lower-cased otherwise.
\<close>

fun title_from :: "bool \<Rightarrow> string \<Rightarrow> string" where
  "title_from prev [] = []"
| "title_from prev (c # cs) =
     (if prev then lower_ch c else upper_ch c) # title_from (iscased_ch c) cs"

definition title :: "string \<Rightarrow> string" where
  "title s = title_from False s"

text \<open>White space as \<open>str.strip()\<close> sees it: TAB, LF, VT, FF, CR, FS, GS, RS, US, space.\<close>

definition isspace_ch :: "char \<Rightarrow> bool" where
  "isspace_ch c \<longleftrightarrow>
     c \<in> set [CHR 0x09, CHR 0x0A, CHR 0x0B, CHR 0x0C, CHR 0x0D,
              CHR 0x1C, CHR 0x1D, CHR 0x1E, CHR 0x1F, CHR '' '']"

definition lstrip :: "string \<Rightarrow> string" where
  "lstrip s = dropWhile isspace_ch s"

definition rstrip :: "string \<Rightarrow> string" where
  "rstrip s = rev (dropWhile isspace_ch (rev s))"

definition strip :: "string \<Rightarrow> string" where
  "strip s = rstrip (lstrip s)"

text \<open>\<open>s.rstrip(chars)\<close>: drop the trailing characters that occur in \<open>chars\<close>.\<close>

definition rstrip_chars :: "string \<Rightarrow> string \<Rightarrow> string" where
  "rstrip_chars chars s = rev (dropWhile (\<lambda>c. c \<in> set chars) (rev s))"

text \<open>
  \<open>str.splitlines()\<close>: a line ends at LF, CR, CR LF, VT, FF, FS, GS or RS; the
  terminators are dropped and a terminator at the very end opens no further line.
\<close>

definition islinebreak_ch :: "char \<Rightarrow> bool" where
  "islinebreak_ch c \<longleftrightarrow>
     c \<in> set [CHR 0x0A, CHR 0x0D, CHR 0x0B, CHR 0x0C, CHR 0x1C, CHR 0x1D, CHR 0x1E]"

fun splitlines_from :: "string \<Rightarrow> string \<Rightarrow> string list" where
  "splitlines_from cur [] = (if cur = [] then [] else [cur])"
| "splitlines_from cur (c # cs) =
     (if c = CHR 0x0D then
        (case cs of
           d # ds \<Rightarrow>
             if d = CHR 0x0A then cur # splitlines_from [] ds
             else cur # splitlines_from [] cs
         | [] \<Rightarrow> cur # splitlines_from [] cs)
      else if islinebreak_ch c then cur # splitlines_from [] cs
      else splitlines_from (cur @ [c]) cs)"

definition splitlines :: "string \<Rightarrow> string list" where
  "splitlines s = splitlines_from [] s"

text \<open>\<open>sep.join(xs)\<close>.\<close>

fun join :: "string \<Rightarrow> string list \<Rightarrow> string" where
  "join sep [] = []"
| "join sep [x] = x"
| "join sep (x # y # ys) = x @ sep @ join sep (y # ys)"

text \<open>A string between single quotes, as \<open>"'%s'" % s\<close> formats it.\<close>

definition quoted :: "string \<Rightarrow> string" where
  "quoted s = [CHR 0x27] @ s @ [CHR 0x27]"

section \<open>\<open>_to_bool\<close>\<close>

text \<open>
  \<^verbatim>\<open>
  if text.title() in ("True", "1"): result = True
  elif text.title() in ("False", "0"): result = False
  else: raise ValueError("Expected 'True', 'False', '1', '0'; got '%s'" % text)
  \<close>
\<close>

definition to_bool :: "string \<Rightarrow> exn + bool" where
  "to_bool text =
     (if title text \<in> set [''True'', ''1''] then Inr True
      else if title text \<in> set [''False'', ''0''] then Inr False
      else Inl (Exn ValueError
             (''Expected 'True', 'False', '1', '0'; got '' @ quoted text)))"

section \<open>\<open>_parse_docargs\<close>\<close>

text \<open>
  A dictionary with string keys, in insertion order (an \<open>OrderedDict\<close>, a \<open>dict\<close>):
  assigning to a key it holds keeps the key's place.
\<close>

type_synonym odict = "(string \<times> string) list"

fun od_set :: "(string \<times> 'v) list \<Rightarrow> string \<Rightarrow> 'v \<Rightarrow> (string \<times> 'v) list" where
  "od_set [] k v = [(k, v)]"
| "od_set ((k', v') # kvs) k v =
     (if k' = k then (k, v) # kvs else (k', v') # od_set kvs k v)"

text \<open>Word characters of the pattern \<open>\w\<close>: letters, digits and the underscore.\<close>

definition isword_ch :: "char \<Rightarrow> bool" where
  "isword_ch c \<longleftrightarrow> isupper_ch c \<or> islower_ch c \<or> c \<in> set digits \<or> c = CHR ''_''"

text \<open>
  \<open>(.+)$\<close> on the rest of a line: one or more characters other than LF, up to the end of
  the string or up to a single LF that ends it.
\<close>

definition dot_plus_eol :: "string \<Rightarrow> string option" where
  "dot_plus_eol s =
     (if s \<noteq> [] \<and> CHR 0x0A \<notin> set s then Some s
      else if s \<noteq> [] \<and> last s = CHR 0x0A \<and> butlast s \<noteq> [] \<and> CHR 0x0A \<notin> set (butlast s)
        then Some (butlast s)
      else None)"

text \<open>
  \<open>re.compile(r"^(\w+):(.+)$").match(line)\<close>: the two groups, or \<open>None\<close>. The first
  group is the longest run of word characters at the start of the line, since the colon
  that has to follow it is not a word character.
\<close>

definition match_docarg :: "string \<Rightarrow> (string \<times> string) option" where
  "match_docarg line =
     (let name = takeWhile isword_ch line; rest = dropWhile isword_ch line
      in if name = [] then None
         else (case rest of
                 [] \<Rightarrow> None
               | c # body \<Rightarrow>
                   if c = CHR '':'' then map_option (\<lambda>d. (name, d)) (dot_plus_eol body)
                   else None))"

text \<open>
  The loop of \<open>_parse_docargs\<close> over the lines, with its two variables \<open>result\<close> and
  \<open>name\<close>:
  \<^verbatim>\<open>
  if match:   name = match.group(1); desc = match.group(2).strip(); result[name] = desc
  elif name:  result[name] += " " + line.strip()
  else:       raise ValueError("Expected name: value pair; got '%s'" % line)
  \<close>
\<close>

fun docargs_loop :: "odict \<Rightarrow> string option \<Rightarrow> string list \<Rightarrow> exn + odict" where
  "docargs_loop result name [] = Inr result"
| "docargs_loop result name (line # lines) =
     (case match_docarg line of
        Some (n, d) \<Rightarrow> docargs_loop (od_set result n (strip d)) (Some n) lines
      | None \<Rightarrow>
          (if name \<noteq> None \<and> name \<noteq> Some [] then
             (case map_of result (the name) of
                None \<Rightarrow> Inl (Exn KeyError (quoted (the name)))
              | Some desc \<Rightarrow>
                  docargs_loop (od_set result (the name) (desc @ '' '' @ strip line)) name lines)
           else Inl (Exn ValueError (''Expected name: value pair; got '' @ quoted line))))"

definition parse_docargs :: "string \<Rightarrow> exn + odict" where
  "parse_docargs text = docargs_loop [] None (splitlines text)"

text \<open>
  The sub-parser as the specification words it, for comparison with the loop: every
  matching line starts an entry, whose description is the trimmed second group followed
  by each continuation line (the non-matching lines up to the next matching one),
  trimmed, after a single space; the entries are then stored in order.
\<close>

fun docargs_entries :: "string list \<Rightarrow> (string \<times> string) list" where
  "docargs_entries [] = []"
| "docargs_entries (line # lines) =
     (case match_docarg line of
        Some (n, d) \<Rightarrow>
          (n, strip d @ concat (map (\<lambda>l. '' '' @ strip l)
                 (takeWhile (\<lambda>l. match_docarg l = None) lines))) # docargs_entries lines
      | None \<Rightarrow> docargs_entries lines)"

definition docargs_spec :: "string list \<Rightarrow> odict" where
  "docargs_spec lines = foldl (\<lambda>r (n, d). od_set r n d) [] (docargs_entries lines)"

text \<open>The distinct elements of a list in the order of their first occurrence.\<close>

definition first_seen :: "'a list \<Rightarrow> 'a list" where
  "first_seen xs = rev (remdups (rev xs))"

section \<open>\<open>parse_docstr\<close>\<close>

record DocInfo =
  summary :: "string option"
  description :: "string option"
  args :: "string option"
  returns :: "string option"
  yields :: "string option"
  raises :: "string option"

definition sections :: "string list" where
  "sections = [''summary'', ''description'', ''args'', ''returns'', ''yields'', ''raises'']"

text \<open>\<open>test = lambda line: line.lower().rstrip(":") not in sections\<close>\<close>

definition test :: "string \<Rightarrow> bool" where
  "test line \<longleftrightarrow> rstrip_chars '':'' (lower line) \<notin> set sections"

text \<open>
  One round of the loop over the sections, up to the test \<open>if matches\<close>: the lines matched
  for the section and the lines left (the header line of a section is deleted as soon as
  it is recognised). Reading \<open>lines[1]\<close> of an empty list raises.
  \<^verbatim>\<open>
  if section == "summary":
      if len(lines) == 1 or lines[1] == "": matches = lines[0:1]
  elif section == "description":
      matches = [line for line in takewhile(test, lines)]
  elif lines and lines[0] == section.title() + ":":
      del lines[0]
      matches = [line for line in takewhile(test, lines)]
  \<close>
\<close>

definition section_matches :: "string \<Rightarrow> string list \<Rightarrow> exn + (string list \<times> string list)" where
  "section_matches section lines =
     (if section = ''summary'' then
        (if length lines = 1 then Inr (take 1 lines, lines)
         else if length lines < 2 then Inl (Exn IndexError ''list index out of range'')
         else if lines ! 1 = [] then Inr (take 1 lines, lines)
         else Inr ([], lines))
      else if section = ''description'' then Inr (takeWhile test lines, lines)
      else if lines \<noteq> [] \<and> hd lines = title section @ '':'' then
        Inr (takeWhile test (tl lines), tl lines)
      else Inr ([], lines))"

text \<open>
  The loop over the sections with the dictionary \<open>scratch\<close>; \<open>linesep\<close> is \<open>os.linesep\<close>.
  \<^verbatim>\<open>
  if matches:
      del lines[:len(matches)]
      value = os.linesep.join(matches)
      scratch[section] = value.strip()
  else:
      scratch[section] = None
  \<close>
\<close>

fun docstr_loop ::
  "string \<Rightarrow> string list \<Rightarrow> string list \<Rightarrow> (string \<rightharpoonup> string option) \<Rightarrow>
   exn + (string \<rightharpoonup> string option)" where
  "docstr_loop linesep [] lines scratch = Inr scratch"
| "docstr_loop linesep (section # rest) lines scratch =
     (case section_matches section lines of
        Inl e \<Rightarrow> Inl e
      | Inr (matches, lines') \<Rightarrow>
          if matches \<noteq> [] then
            docstr_loop linesep rest (drop (length matches) lines')
              (scratch(section \<mapsto> Some (strip (join linesep matches))))
          else docstr_loop linesep rest lines' (scratch(section \<mapsto> None)))"

text \<open>\<open>DocInfo(**scratch)\<close>; every field is a key of \<open>scratch\<close> after the loop.\<close>

definition DocInfo_of :: "(string \<rightharpoonup> string option) \<Rightarrow> DocInfo" where
  "DocInfo_of scratch =
     \<lparr> summary = the (scratch ''summary''), description = the (scratch ''description''),
       args = the (scratch ''args''), returns = the (scratch ''returns''),
       yields = the (scratch ''yields''), raises = the (scratch ''raises'') \<rparr>"

text \<open>
  \<open>parse_docstr(text)\<close>; \<open>text\<close> is what \<open>inspect.getdoc\<close> returned, \<open>None\<close> for an object
  without documentation, on which \<open>text.strip()\<close> raises.
\<close>

definition parse_docstr :: "string \<Rightarrow> string option \<Rightarrow> exn + DocInfo" where
  "parse_docstr linesep text =
     (case text of
        None \<Rightarrow>
          Inl (Exn AttributeError
                (quoted ''NoneType'' @ '' object has no attribute '' @ quoted ''strip''))
      | Some t \<Rightarrow>
          (case docstr_loop linesep sections (map strip (splitlines (strip t))) Map.empty of
             Inl e \<Rightarrow> Inl e
           | Inr scratch \<Rightarrow> Inr (DocInfo_of scratch)))"

section \<open>Callables\<close>

text \<open>
  A callable as the tool sees it: what \<open>inspect.getfullargspec(func)[:4]\<close> reports (the
  names of the positional parameters in declaration order, the names of the \<open>*\<close> and \<open>**\<close>
  parameters, the defaults of the last parameters; no defaults is the empty list, as
  after \<open>defaults = defaults or []\<close>; a function never has more defaults than
  parameters), what \<open>inspect.getdoc\<close> returns, the receiver when the callable is a bound
  method (a call passes it before the positional arguments), and the body, a function of
  the values bound to the parameters. Keyword-only parameters are not modelled.
\<close>

record pyfunc =
  fargs :: "string list"
  fvarargs :: "string option"
  fkeywords :: "string option"
  fdefaults :: "pyval list"
  fdoc :: "string option"
  freceiver :: "pyval option"
  fbody :: "(string \<rightharpoonup> pyval) \<Rightarrow> exn + pyval"

text \<open>
  The call \<open>func(*args, **kwargs)\<close>: positional arguments fill the parameters in order and
  the surplus goes to the \<open>*\<close> parameter; a keyword argument fills the parameter of its
  name or goes to the \<open>**\<close> parameter; a parameter left empty takes its default. A
  binding that fails raises \<open>TypeError\<close> (the message is abbreviated).
\<close>

fun bind_keywords ::
  "string list \<Rightarrow> bool \<Rightarrow> (string \<times> pyval) list \<Rightarrow> (string \<times> pyval) list \<Rightarrow>
   (string \<times> pyval) list \<Rightarrow> exn + ((string \<times> pyval) list \<times> (string \<times> pyval) list)" where
  "bind_keywords params has_kw bound extra [] = Inr (bound, extra)"
| "bind_keywords params has_kw bound extra ((k, v) # kwargs) =
     (if k \<in> set params then
        (if k \<in> fst ` set bound then Inl (Exn TypeError (''multiple values for argument '' @ quoted k))
         else bind_keywords params has_kw (bound @ [(k, v)]) extra kwargs)
      else if has_kw then bind_keywords params has_kw bound (od_set extra k v) kwargs
      else Inl (Exn TypeError (''unexpected keyword argument '' @ quoted k)))"

fun bind_defaults ::
  "(string \<rightharpoonup> pyval) \<Rightarrow> (string \<times> pyval) list \<Rightarrow> string list \<Rightarrow> exn + (string \<times> pyval) list" where
  "bind_defaults dflt bound [] = Inr bound"
| "bind_defaults dflt bound (p # params) =
     (if p \<in> fst ` set bound then bind_defaults dflt bound params
      else (case dflt p of
              Some d \<Rightarrow> bind_defaults dflt (bound @ [(p, d)]) params
            | None \<Rightarrow> Inl (Exn TypeError (''missing required argument '' @ quoted p))))"

definition py_call :: "pyfunc \<Rightarrow> pyval list \<Rightarrow> (string \<times> pyval) list \<Rightarrow> exn + pyval" where
  "py_call f posargs kwargs =
     (let names = fargs f;
          dflt = map_of (zip (drop (length names - length (fdefaults f)) names) (fdefaults f));
          given = (case freceiver f of Some r \<Rightarrow> r # posargs | None \<Rightarrow> posargs)
      in if length names < length given \<and> fvarargs f = None
         then Inl (Exn TypeError ''too many positional arguments'')
         else
           (case bind_keywords names (fkeywords f \<noteq> None) (zip names given) [] kwargs of
              Inl e \<Rightarrow> Inl e
            | Inr (bound, extra) \<Rightarrow>
                (case bind_defaults dflt bound names of
                   Inl e \<Rightarrow> Inl e
                 | Inr bound' \<Rightarrow>
                     fbody f (map_of
                       (bound'
                        @ (case fvarargs f of
                             Some a \<Rightarrow> [(a, PTuple (drop (length names) given))]
                           | None \<Rightarrow> [])
                        @ (case fkeywords f of
                             Some k \<Rightarrow> [(k, PDict extra)]
                           | None \<Rightarrow> []))))))"

section \<open>The command line parser of the standard library\<close>

text \<open>
  The part of \<open>argparse\<close> that clitool2 configures. An argument (an \<open>Action\<close>) is a
  positional one (no option strings) or an option; it stores one value (\<open>nargs=None\<close>),
  at most one (\<open>nargs="?"\<close>) or a list of any length (\<open>nargs="*"\<close>). \<open>dest\<close> is \<open>None\<close> for
  the help option, which stores nothing. Argument groups only lay out the help text and
  are not modelled: an argument added to a group of a parser is an argument of the parser.
\<close>

datatype nargs = Nargs_None | Nargs_Optional | Nargs_ZeroOrMore

text \<open>The value converters: \<open>_to_bool\<close>, \<open>int\<close>, \<open>float\<close>, \<open>dateutil.parser.parse\<close>, \<open>json.loads\<close>.\<close>

datatype conv = Conv_to_bool | Conv_int | Conv_float | Conv_to_date | Conv_json_loads

record action =
  option_strings :: "string list"
  dest :: "string option"
  nargs :: nargs
  default_value :: pyval
  type_conv :: "conv option"
  choices :: "string list option"
  help_text :: "string option"
  required :: bool
  is_help :: bool

record parser =
  p_description :: "string option"
  p_epilog :: "string option"
  fromfile_prefix_chars :: string
  actions :: "action list"

definition help_action :: action where
  "help_action =
     \<lparr> option_strings = [''-h'', ''--help''], dest = None, nargs = Nargs_None,
       default_value = PNone, type_conv = None, choices = None,
       help_text = Some ''show this help message and exit'', required = False,
       is_help = True \<rparr>"

text \<open>\<open>ArgumentParser(description=..., epilog=..., add_help=..., fromfile_prefix_chars=...)\<close>\<close>

definition ArgumentParser :: "string option \<Rightarrow> string option \<Rightarrow> bool \<Rightarrow> string \<Rightarrow> parser" where
  "ArgumentParser descr epilog add_help fromfile =
     \<lparr> p_description = descr, p_epilog = epilog, fromfile_prefix_chars = fromfile,
       actions = (if add_help then [help_action] else []) \<rparr>"

text \<open>
  \<open>add_argument(name_or_flag, default=..., help=..., type=..., nargs=..., choices=...)\<close>.
  A name that starts with \<open>-\<close> declares an option, stored under the name without its
  leading dashes (dashes inside become underscores); declaring an option string twice
  raises \<open>ArgumentError\<close>. Any other name declares a positional argument, required unless
  \<open>nargs\<close> is \<open>"?"\<close> (clitool2 gives a positional argument no default).
\<close>

definition add_argument ::
  "parser \<Rightarrow> string \<Rightarrow> pyval \<Rightarrow> string option \<Rightarrow> conv option \<Rightarrow> nargs \<Rightarrow>
   string list option \<Rightarrow> exn + parser" where
  "add_argument p name dflt hlp ty na chs =
     (if name \<noteq> [] \<and> hd name = CHR ''-'' then
        (if name \<in> set (concat (map option_strings (actions p)))
         then Inl (Exn ArgumentError
                (''argument '' @ name @ '': conflicting option string: '' @ name))
         else if dropWhile (\<lambda>c. c = CHR ''-'') name = []
         then Inl (Exn ValueError (''dest= is required for options like '' @ quoted name))
         else Inr (p\<lparr>actions := actions p @
           [\<lparr> option_strings = [name],
              dest = Some (map (\<lambda>c. if c = CHR ''-'' then CHR ''_'' else c)
                             (dropWhile (\<lambda>c. c = CHR ''-'') name)),
              nargs = na, default_value = dflt, type_conv = ty, choices = chs,
              help_text = hlp, required = False, is_help = False \<rparr>]\<rparr>))
      else Inr (p\<lparr>actions := actions p @
           [\<lparr> option_strings = [], dest = Some name, nargs = na, default_value = dflt,
              type_conv = ty, choices = chs, help_text = hlp,
              required = (na \<noteq> Nargs_Optional), is_help = False \<rparr>]\<rparr>))"

section \<open>\<open>_config_parser\<close>\<close>

text \<open>\<open>func_help.get(name, None)\<close> after \<open>func_help = func_help or {}\<close>.\<close>

definition help_for :: "odict option \<Rightarrow> string \<Rightarrow> string option" where
  "help_for func_help name = (case func_help of None \<Rightarrow> None | Some d \<Rightarrow> map_of d name)"

text \<open>\<open>argname = "-" + name if len(name) == 1 else "--" + name\<close>\<close>

definition argname :: "string \<Rightarrow> string" where
  "argname name = (if length name = 1 then ''-'' @ name else ''--'' @ name)"

text \<open>
  The loop over the required parameters:
  \<^verbatim>\<open>
  for arg in required:
      if arg == "self": continue
      text = func_help.get(arg, None)
      parser.add_argument(arg, help=text)
  \<close>
\<close>

fun config_required :: "parser \<Rightarrow> odict option \<Rightarrow> string list \<Rightarrow> exn + parser" where
  "config_required p func_help [] = Inr p"
| "config_required p func_help (arg # rest) =
     (if arg = ''self'' then config_required p func_help rest
      else (case add_argument p arg PNone (help_for func_help arg) None Nargs_None None of
              Inl e \<Rightarrow> Inl e
            | Inr p' \<Rightarrow> config_required p' func_help rest))"

text \<open>
  The loop over the optional parameters:
  \<^verbatim>\<open>
  for name, default in optional:
      argname = "-" + name if len(name) == 1 else "--" + name
      text = func_help.get(name, None)
      if isinstance(default, bool): type_ = _to_bool
      elif isinstance(default, int): type_ = int
      elif isinstance(default, float): type_ = float
      elif isinstance(default, datetime.datetime): type_ = to_date
      else: type_ = None
      parser.add_argument(argname, default=default, help=text, type=type_)
  \<close>
\<close>

fun config_optional :: "parser \<Rightarrow> odict option \<Rightarrow> (string \<times> pyval) list \<Rightarrow> exn + parser" where
  "config_optional p func_help [] = Inr p"
| "config_optional p func_help ((name, dflt) # rest) =
     (let ty =
            (if isinstance dflt Cls_bool then Some Conv_to_bool
             else if isinstance dflt Cls_int then Some Conv_int
             else if isinstance dflt Cls_float then Some Conv_float
             else if isinstance dflt Cls_datetime then Some Conv_to_date
             else None)
      in (case add_argument p (argname name) dflt (help_for func_help name) ty
                 Nargs_None None of
            Inl e \<Rightarrow> Inl e
          | Inr p' \<Rightarrow> config_optional p' func_help rest))"

text \<open>
  \<open>_config_parser(parser, func, func_help)\<close>: the required parameters, the optional ones,
  then the \<open>*\<close> parameter as a positional argument of any length and the \<open>**\<close> parameter as
  an option read by \<open>json.loads\<close>. \<open>if varargs\<close> tests a name or \<open>None\<close>.
\<close>

definition config_parser :: "parser \<Rightarrow> pyfunc \<Rightarrow> odict option \<Rightarrow> exn + parser" where
  "config_parser p func func_help =
     (let names = fargs func; defaults = fdefaults func;
          req = take (length names - length defaults) names;
          optional = zip (drop (length names - length defaults) names) defaults
      in case config_required p func_help req of
           Inl e \<Rightarrow> Inl e
         | Inr p1 \<Rightarrow>
             (case config_optional p1 func_help optional of
                Inl e \<Rightarrow> Inl e
              | Inr p2 \<Rightarrow>
                  (case (case fvarargs func of
                           None \<Rightarrow> Inr p2
                         | Some v \<Rightarrow>
                             if v = [] then Inr p2
                             else add_argument p2 v PNone (help_for func_help v) None
                                    Nargs_ZeroOrMore None) of
                     Inl e \<Rightarrow> Inl e
                   | Inr p3 \<Rightarrow>
                       (case fkeywords func of
                          None \<Rightarrow> Inr p3
                        | Some k \<Rightarrow>
                            if k = [] then Inr p3
                            else add_argument p3 (argname k) PNone (help_for func_help k)
                                   (Some Conv_json_loads) Nargs_None None))))"

section \<open>\<open>_getcallargs\<close>\<close>

text \<open>\<open>type(x).__name__\<close>\<close>

fun class_name :: "pyclass \<Rightarrow> string" where
  "class_name Cls_NoneType = ''NoneType''"
| "class_name Cls_bool = ''bool''"
| "class_name Cls_int = ''int''"
| "class_name Cls_float = ''float''"
| "class_name Cls_str = ''str''"
| "class_name Cls_datetime = ''datetime''"
| "class_name Cls_date = ''date''"
| "class_name Cls_tuple = ''tuple''"
| "class_name Cls_list = ''list''"
| "class_name Cls_dict = ''dict''"
| "class_name (Cls_other n) = n"

text \<open>
  The loop over the names. \<open>optional\<close> is a list of pairs \<open>(name, default)\<close>, so
  \<open>name in optional\<close> compares the string \<open>name\<close> with each pair, and \<open>optional[name]\<close>
  indexes a list with a string.
  \<^verbatim>\<open>
  for name in names:
      if name == "self": pass
      elif name in kwargs: funcargs.append(kwargs[name])
      elif name in optional: funcargs.append(optional[name])
      else: raise ValueError("No value available for '{0}'".format(name))
  \<close>
\<close>

fun getcallargs_names ::
  "(string \<times> pyval) list \<Rightarrow> (string \<times> pyval) list \<Rightarrow> string list \<Rightarrow> pyval list \<Rightarrow>
   exn + pyval list" where
  "getcallargs_names optional kwargs [] funcargs = Inr funcargs"
| "getcallargs_names optional kwargs (name # names) funcargs =
     (if name = ''self'' then getcallargs_names optional kwargs names funcargs
      else if name \<in> fst ` set kwargs then
        getcallargs_names optional kwargs names (funcargs @ [the (map_of kwargs name)])
      else if PStr name \<in> set (map (\<lambda>(n, d). PTuple [PStr n, d]) optional) then
        Inl (Exn TypeError ''list indices must be integers or slices, not str'')
      else Inl (Exn ValueError (''No value available for '' @ quoted name)))"

text \<open>The elements of a tuple or a list.\<close>

fun items_of :: "pyval \<Rightarrow> pyval list" where
  "items_of (PTuple xs) = xs"
| "items_of (PList xs) = xs"
| "items_of _ = []"

fun entries_of :: "pyval \<Rightarrow> (string \<times> pyval) list" where
  "entries_of (PDict kvs) = kvs"
| "entries_of _ = []"

text \<open>
  \<open>_getcallargs(func, **kwargs)\<close>: the positional and the keyword arguments of the call.
  \<^verbatim>\<open>
  if varargs and varargs in kwargs:
      items = kwargs[varargs]
      if isinstance(items, (tuple, list)): funcargs.extend(items)
      else: raise TypeError("Expected sequence; got %s" % type(items).__name__)
  if keywords and keywords in kwargs:
      mapping = kwargs[keywords]
      if mapping is None: pass
      elif isinstance(mapping, dict): funckwargs.update(mapping)
      else: raise TypeError("Expected dict; got %s" % type(mapping).__name__)
  return funcargs, funckwargs
  \<close>
\<close>

definition getcallargs ::
  "pyfunc \<Rightarrow> (string \<times> pyval) list \<Rightarrow> exn + (pyval list \<times> (string \<times> pyval) list)" where
  "getcallargs func kwargs =
     (let names = fargs func; defaults = fdefaults func;
          optional = zip (drop (length names - length defaults) names) defaults
      in case getcallargs_names optional kwargs names [] of
           Inl e \<Rightarrow> Inl e
         | Inr funcargs \<Rightarrow>
             (case (case fvarargs func of
                      None \<Rightarrow> Inr funcargs
                    | Some v \<Rightarrow>
                        if v \<noteq> [] \<and> v \<in> fst ` set kwargs then
                          (let items = the (map_of kwargs v)
                           in if isinstance items Cls_tuple \<or> isinstance items Cls_list
                              then Inr (funcargs @ items_of items)
                              else Inl (Exn TypeError
                                     (''Expected sequence; got '' @ class_name (type_of items))))
                        else Inr funcargs) of
                Inl e \<Rightarrow> Inl e
              | Inr funcargs' \<Rightarrow>
                  (case fkeywords func of
                     None \<Rightarrow> Inr (funcargs', [])
                   | Some k \<Rightarrow>
                       if k \<noteq> [] \<and> k \<in> fst ` set kwargs then
                         (let mapping = the (map_of kwargs k)
                          in if mapping = PNone then Inr (funcargs', [])
                             else if isinstance mapping Cls_dict
                             then Inr (funcargs',
                                    foldl (\<lambda>d (key, v). od_set d key v) [] (entries_of mapping))
                             else Inl (Exn TypeError
                                    (''Expected dict; got '' @ class_name (type_of mapping))))
                       else Inr (funcargs', []))))"

section \<open>Parsing a command line\<close>

text \<open>
  The converters \<open>int\<close>, \<open>float\<close>, \<open>dateutil.parser.parse\<close> and \<open>json.loads\<close> belong to
  the standard library and to dateutil; the development is parametric in them.
\<close>

record externals =
  int_of :: "string \<Rightarrow> exn + pyval"
  float_of :: "string \<Rightarrow> exn + pyval"
  to_date :: "string \<Rightarrow> exn + pyval"
  json_loads :: "string \<Rightarrow> exn + pyval"

definition convert :: "externals \<Rightarrow> conv \<Rightarrow> string \<Rightarrow> exn + pyval" where
  "convert ext c s =
     (case c of
        Conv_to_bool \<Rightarrow> (case to_bool s of Inl e \<Rightarrow> Inl e | Inr b \<Rightarrow> Inr (PBool b))
      | Conv_int \<Rightarrow> int_of ext s
      | Conv_float \<Rightarrow> float_of ext s
      | Conv_to_date \<Rightarrow> to_date ext s
      | Conv_json_loads \<Rightarrow> json_loads ext s)"

text \<open>
  A usage error: the parser prints the usage and exits with status 2. A command line
  outside the modelled fragment is marked as such.
\<close>

definition usage_error :: exn where
  "usage_error = Exn SystemExit ''2''"

definition outside :: exn where
  "outside = Exn OutsideModel []"

text \<open>
  \<open>_get_value\<close>: the converter of the argument applied to one string; a \<open>ValueError\<close> or
  \<open>TypeError\<close> of the converter is a usage error, any other exception propagates.
\<close>

definition get_value :: "externals \<Rightarrow> action \<Rightarrow> string \<Rightarrow> exn + pyval" where
  "get_value ext a s =
     (case type_conv a of
        None \<Rightarrow> Inr (PStr s)
      | Some c \<Rightarrow>
          (case convert ext c s of
             Inr v \<Rightarrow> Inr v
           | Inl e \<Rightarrow>
               if exc_type e = ValueError \<or> exc_type e = TypeError then Inl usage_error
               else Inl e))"

text \<open>\<open>_check_value\<close>: a value outside the choices of the argument is a usage error.\<close>

definition check_value :: "action \<Rightarrow> pyval \<Rightarrow> exn + pyval" where
  "check_value a v =
     (case choices a of
        None \<Rightarrow> Inr v
      | Some cs \<Rightarrow> if v \<in> set (map PStr cs) then Inr v else Inl usage_error)"

fun get_value_list :: "externals \<Rightarrow> action \<Rightarrow> string list \<Rightarrow> exn + pyval list" where
  "get_value_list ext a [] = Inr []"
| "get_value_list ext a (s # ss) =
     (case get_value ext a s of
        Inl e \<Rightarrow> Inl e
      | Inr v \<Rightarrow> (case get_value_list ext a ss of Inl e \<Rightarrow> Inl e | Inr vs \<Rightarrow> Inr (v # vs)))"

text \<open>
  \<open>_get_values\<close>: the value stored for an argument given the strings matched for it. A
  positional \<open>"?"\<close> without a string takes its default (converted when it is a string),
  a positional \<open>"*"\<close> without strings the empty list; one string for \<open>None\<close> or \<open>"?"\<close>
  gives one value; otherwise the value is the list of the converted strings.
\<close>

definition get_values :: "externals \<Rightarrow> action \<Rightarrow> string list \<Rightarrow> exn + pyval" where
  "get_values ext a strs =
     (if strs = [] \<and> nargs a = Nargs_Optional then
        (case (if option_strings a \<noteq> [] then PNone else default_value a) of
           PStr s \<Rightarrow>
             (case get_value ext a s of Inl e \<Rightarrow> Inl e | Inr v \<Rightarrow> check_value a v)
         | v \<Rightarrow> Inr v)
      else if strs = [] \<and> nargs a = Nargs_ZeroOrMore \<and> option_strings a = [] then
        (if choices a \<noteq> None then Inl outside
         else if default_value a \<noteq> PNone then Inr (default_value a)
         else Inr (PList []))
      else if length strs = 1 \<and> nargs a \<noteq> Nargs_ZeroOrMore then
        (case get_value ext a (hd strs) of Inl e \<Rightarrow> Inl e | Inr v \<Rightarrow> check_value a v)
      else
        (case get_value_list ext a strs of
           Inl e \<Rightarrow> Inl e
         | Inr vs \<Rightarrow>
             if \<forall>v\<in>set vs. check_value a v = Inr v then Inr (PList vs)
             else Inl usage_error))"

text \<open>
  The state of one parse: the namespace, the arguments seen (by their index in the
  parser) and the strings no argument took.
\<close>

record pstate =
  namespace :: "(string \<times> pyval) list"
  seen :: "nat list"
  extras :: "string list"

text \<open>\<open>take_action\<close>: the help option prints the help and exits with status 0; any other
  argument stores its value under its name.\<close>

definition take_action ::
  "externals \<Rightarrow> pstate \<Rightarrow> nat \<times> action \<Rightarrow> string list \<Rightarrow> exn + pstate" where
  "take_action ext st ia strs =
     (if is_help (snd ia) then Inl (Exn SystemExit ''0'')
      else (case get_values ext (snd ia) strs of
              Inl e \<Rightarrow> Inl e
            | Inr v \<Rightarrow>
                Inr (st\<lparr>namespace := od_set (namespace st) (the (dest (snd ia))) v,
                        seen := seen st @ [fst ia]\<rparr>)))"

text \<open>
  How \<open>_parse_optional\<close> classifies one string of the command line: a positional string
  (\<open>A\<close> in the pattern of argparse), an option of the parser with its option string and
  the text after \<open>=\<close> if any, or a string that looks like an option and is none of the
  parser's. A string that abbreviates an option, or that starts with the option string of
  a one-letter option, is resolved by argparse in ways that differ between its versions and
  is left outside the model.
\<close>

datatype token_class = Positional | Option nat string "string option" | Unknown_option | Outside

definition option_index :: "parser \<Rightarrow> string \<Rightarrow> nat option" where
  "option_index p s =
     (case filter (\<lambda>ia. s \<in> set (option_strings (snd ia))) (List.enumerate 0 (actions p)) of
        [] \<Rightarrow> None
      | ia # _ \<Rightarrow> Some (fst ia))"

text \<open>The pattern \<open>^-\d+$|^-\d*\.\d+$\<close> of a negative number.\<close>

definition is_negative_number :: "string \<Rightarrow> bool" where
  "is_negative_number s =
     (case s of
        [] \<Rightarrow> False
      | c # body \<Rightarrow>
          c = CHR ''-'' \<and>
          (let b = (if body \<noteq> [] \<and> last body = CHR 0x0A then butlast body else body);
               whole = takeWhile (\<lambda>d. d \<in> set digits) b;
               rest = dropWhile (\<lambda>d. d \<in> set digits) b
           in (whole \<noteq> [] \<and> rest = []) \<or>
              (rest \<noteq> [] \<and> hd rest = CHR ''.'' \<and> tl rest \<noteq> [] \<and>
               (\<forall>d\<in>set (tl rest). d \<in> set digits))))"

definition abbreviates :: "parser \<Rightarrow> string \<Rightarrow> bool" where
  "abbreviates p s =
     (let pre = takeWhile (\<lambda>c. c \<noteq> CHR ''='') s
      in \<exists>opt\<in>set (concat (map option_strings (actions p))).
           take (length pre) opt = pre \<or> take (length s) opt = s \<or> opt = take 2 s)"

definition parse_optional :: "parser \<Rightarrow> string \<Rightarrow> token_class" where
  "parse_optional p s =
     (if s = [] then Positional
      else if hd s \<noteq> CHR ''-'' then Positional
      else (case option_index p s of
              Some i \<Rightarrow> Option i s None
            | None \<Rightarrow>
                if length s = 1 then Positional
                else if CHR ''='' \<in> set s \<and>
                        option_index p (takeWhile (\<lambda>c. c \<noteq> CHR ''='') s) \<noteq> None
                then Option (the (option_index p (takeWhile (\<lambda>c. c \<noteq> CHR ''='') s)))
                       (takeWhile (\<lambda>c. c \<noteq> CHR ''='') s)
                       (Some (tl (dropWhile (\<lambda>c. c \<noteq> CHR ''='') s)))
                else if abbreviates p s then Outside
                else if is_negative_number s then Positional
                else if CHR '' '' \<in> set s then Positional
                else Unknown_option))"

text \<open>
  \<open>_match_arguments_partial\<close> matches the patterns of the positional arguments still
  open, \<open>A\<close> for \<open>None\<close>, \<open>A?\<close> for \<open>"?"\<close> and \<open>A*\<close> for \<open>"*"\<close>, against a run of \<open>k\<close>
  positional strings, for the longest list of arguments that matches at all. The
  longest list stops before the first \<open>None\<close> argument that finds no string. Each group is
  greedy and gives back only what the arguments after it need: a \<open>"?"\<close> takes a string when
  one is left over, a \<open>"*"\<close> all that are left over.
\<close>

fun need :: "nargs list \<Rightarrow> nat" where
  "need [] = 0"
| "need (a # r) = (if a = Nargs_None then Suc (need r) else need r)"

fun matching_prefix :: "nargs list \<Rightarrow> nat \<Rightarrow> nargs list" where
  "matching_prefix [] k = []"
| "matching_prefix (a # r) k =
     (if a = Nargs_None then (if k = 0 then [] else a # matching_prefix r (k - 1))
      else a # matching_prefix r k)"

fun match_counts :: "nargs list \<Rightarrow> nat \<Rightarrow> nat list" where
  "match_counts [] k = []"
| "match_counts (a # r) k =
     (let c = (case a of
                 Nargs_None \<Rightarrow> 1
               | Nargs_Optional \<Rightarrow> if need r < k then 1 else 0
               | Nargs_ZeroOrMore \<Rightarrow> k - need r)
      in c # match_counts r (k - c))"

fun take_actions ::
  "externals \<Rightarrow> pstate \<Rightarrow> (nat \<times> action) list \<Rightarrow> nat list \<Rightarrow> string list \<Rightarrow> exn + pstate" where
  "take_actions ext st (ia # acts) (c # cs) strs =
     (case take_action ext st ia (take c strs) of
        Inl e \<Rightarrow> Inl e
      | Inr st' \<Rightarrow> take_actions ext st' acts cs (drop c strs))"
| "take_actions ext st acts cs strs = Inr st"

text \<open>
  \<open>consume_positionals\<close> on a run of positional strings: the arguments matched take their
  strings and leave the list of open positional arguments; the result is that list, the
  state and the number of strings taken. Before an option, an argument matched with no
  string at the end of the list is consumed by some versions of argparse and kept open by
  others; such a command line is left outside the model.
\<close>

definition consume_positionals ::
  "externals \<Rightarrow> bool \<Rightarrow> (nat \<times> action) list \<Rightarrow> pstate \<Rightarrow> string list \<Rightarrow>
   exn + ((nat \<times> action) list \<times> pstate \<times> nat)" where
  "consume_positionals ext final pos st run =
     (let m = matching_prefix (map (\<lambda>ia. nargs (snd ia)) pos) (length run);
          counts = match_counts m (length run)
      in if \<not> final \<and> counts \<noteq> [] \<and> last counts = 0 then Inl outside
         else (case take_actions ext st (take (length m) pos) counts run of
                 Inl e \<Rightarrow> Inl e
               | Inr st' \<Rightarrow> Inr (drop (length m) pos, st', sum_list counts)))"

text \<open>
  \<open>consume_optional\<close> on a string classified as an option, followed by the strings
  \<open>rest\<close>: an unknown option goes to the extras; the help option exits; an option that
  stores one value takes the text after \<open>=\<close> or else the next string, which has to be a
  positional one. The result is the state and the number of strings of \<open>rest\<close> taken.
\<close>

definition consume_optional ::
  "externals \<Rightarrow> parser \<Rightarrow> pstate \<Rightarrow> string \<Rightarrow> token_class \<Rightarrow> (string \<times> token_class) list \<Rightarrow>
   exn + (pstate \<times> nat)" where
  "consume_optional ext p st tok cls rest =
     (case cls of
        Option i opt explicit \<Rightarrow>
          (let a = actions p ! i
           in if is_help a then
                (if explicit = None then Inl (Exn SystemExit ''0'') else Inl outside)
              else if nargs a \<noteq> Nargs_None then Inl outside
              else (case explicit of
                      Some v \<Rightarrow>
                        (case take_action ext st (i, a) [v] of
                           Inl e \<Rightarrow> Inl e
                         | Inr st' \<Rightarrow> Inr (st', 0))
                    | None \<Rightarrow>
                        (case rest of
                           [] \<Rightarrow> Inl usage_error
                         | (t, c) # _ \<Rightarrow>
                             if c = Positional then
                               (case take_action ext st (i, a) [t] of
                                  Inl e \<Rightarrow> Inl e
                                | Inr st' \<Rightarrow> Inr (st', 1))
                             else Inl usage_error)))
      | Unknown_option \<Rightarrow> Inr (st\<lparr>extras := extras st @ [tok]\<rparr>, 0)
      | _ \<Rightarrow> Inl outside)"

lemma dropWhile_Cons_length: "dropWhile P xs = y # ys \<Longrightarrow> length ys < length xs"
  using length_dropWhile_le [of P xs] by simp

text \<open>
  The loop of \<open>_parse_known_args\<close> over the classified strings. While an option is still
  to come: a run of positional strings before it is given to the open positional
  arguments, and when they take none of it the run goes to the extras; then the option is
  consumed. After the last option the remaining strings are given to the open positional
  arguments, and what they leave goes to the extras.
\<close>

function parse_loop ::
  "externals \<Rightarrow> parser \<Rightarrow> (nat \<times> action) list \<Rightarrow> pstate \<Rightarrow> (string \<times> token_class) list \<Rightarrow>
   exn + pstate" where
  "parse_loop ext p pos st toks =
     (case dropWhile (\<lambda>tc. snd tc = Positional) toks of
        [] \<Rightarrow>
          (case consume_positionals ext True pos st (map fst toks) of
             Inl e \<Rightarrow> Inl e
           | Inr (pos', st', n) \<Rightarrow> Inr (st'\<lparr>extras := extras st' @ drop n (map fst toks)\<rparr>))
      | tc # rest \<Rightarrow>
          (if takeWhile (\<lambda>tc. snd tc = Positional) toks \<noteq> [] then
             (case consume_positionals ext False pos st
                     (map fst (takeWhile (\<lambda>tc. snd tc = Positional) toks)) of
                Inl e \<Rightarrow> Inl e
              | Inr (pos', st', n) \<Rightarrow>
                  if 0 < n then parse_loop ext p pos' st' (drop n toks)
                  else
                    (case consume_optional ext p
                            (st'\<lparr>extras := extras st' @
                                   map fst (takeWhile (\<lambda>tc. snd tc = Positional) toks)\<rparr>)
                            (fst tc) (snd tc) rest of
                       Inl e \<Rightarrow> Inl e
                     | Inr (st'', m) \<Rightarrow> parse_loop ext p pos' st'' (drop m rest)))
           else
             (case consume_optional ext p st (fst tc) (snd tc) rest of
                Inl e \<Rightarrow> Inl e
              | Inr (st', m) \<Rightarrow> parse_loop ext p pos st' (drop m rest))))"
  by pat_completeness auto
termination
proof (relation "measure (\<lambda>(ext, p, pos, st, toks). length toks)", goal_cases)
  case 1
  show ?case by simp
next
  case (2 ext p pos st toks tc rest x y xa ya)
  from 2(1) have "length rest < length toks" by (rule dropWhile_Cons_length)
  with 2 show ?case by simp
next
  case (3 ext p pos st toks tc rest x y xa ya xb yb)
  from 3(1) have "length rest < length toks" by (rule dropWhile_Cons_length)
  then show ?case by simp
next
  case (4 ext p pos st toks tc rest x y)
  from 4(1) have "length rest < length toks" by (rule dropWhile_Cons_length)
  then show ?case by simp
qed

text \<open>
  After the loop: an argument that was not seen is an error when it is required (the
  usage error is raised once all arguments have been looked at); a default that is a
  string and still stands in the namespace is converted.
\<close>

fun finish_actions :: "externals \<Rightarrow> pstate \<Rightarrow> bool \<Rightarrow> (nat \<times> action) list \<Rightarrow> exn + pstate" where
  "finish_actions ext st missing [] = (if missing then Inl usage_error else Inr st)"
| "finish_actions ext st missing (ia # rest) =
     (if fst ia \<in> set (seen st) then finish_actions ext st missing rest
      else if required (snd ia) then finish_actions ext st True rest
      else (case default_value (snd ia) of
              PStr s \<Rightarrow>
                (if dest (snd ia) \<noteq> None \<and>
                    map_of (namespace st) (the (dest (snd ia))) = Some (PStr s)
                 then (case get_value ext (snd ia) s of
                         Inl e \<Rightarrow> Inl e
                       | Inr v \<Rightarrow>
                           finish_actions ext
                             (st\<lparr>namespace := od_set (namespace st) (the (dest (snd ia))) v\<rparr>)
                             missing rest)
                 else finish_actions ext st missing rest)
            | _ \<Rightarrow> finish_actions ext st missing rest))"

text \<open>The namespace before parsing: every argument's default under its name.\<close>

definition initial_namespace :: "parser \<Rightarrow> (string \<times> pyval) list" where
  "initial_namespace p =
     foldl (\<lambda>ns a. case dest a of
                      None \<Rightarrow> ns
                    | Some d \<Rightarrow> if d \<in> fst ` set ns then ns else ns @ [(d, default_value a)])
       [] (actions p)"

text \<open>
  \<open>parse_known_args(args)\<close>: the namespace and the extras. A string that starts with a
  character of \<open>fromfile_prefix_chars\<close> names a file of further arguments, and \<open>--\<close> ends
  the options; both are left outside the model.
\<close>

definition parse_known_args ::
  "externals \<Rightarrow> parser \<Rightarrow> string list \<Rightarrow> exn + ((string \<times> pyval) list \<times> string list)" where
  "parse_known_args ext p strs =
     (if (\<exists>s\<in>set strs. s \<noteq> [] \<and> hd s \<in> set (fromfile_prefix_chars p)) \<or> ''--'' \<in> set strs
      then Inl outside
      else if \<exists>s\<in>set strs. parse_optional p s = Outside then Inl outside
      else
        (case parse_loop ext p
                (filter (\<lambda>ia. option_strings (snd ia) = []) (List.enumerate 0 (actions p)))
                \<lparr>namespace = initial_namespace p, seen = [], extras = []\<rparr>
                (map (\<lambda>s. (s, parse_optional p s)) strs) of
           Inl e \<Rightarrow> Inl e
         | Inr st \<Rightarrow>
             (case finish_actions ext st False (List.enumerate 0 (actions p)) of
                Inl e \<Rightarrow> Inl e
              | Inr st' \<Rightarrow> Inr (namespace st', extras st'))))"

text \<open>\<open>parse_args(args)\<close>: strings that no argument took are a usage error.\<close>

definition parse_args :: "externals \<Rightarrow> parser \<Rightarrow> string list \<Rightarrow> exn + (string \<times> pyval) list" where
  "parse_args ext p strs =
     (case parse_known_args ext p strs of
        Inl e \<Rightarrow> Inl e
      | Inr (ns, ex) \<Rightarrow> if ex \<noteq> [] then Inl usage_error else Inr ns)"

section \<open>\<open>Result\<close> and the execution wrapper\<close>

text \<open>
  \<open>Result = namedtuple("Result", ("status", "output", "error"))\<close> (the field \<open>output\<close> is
  written \<open>output'\<close>, \<open>output\<close> being a keyword of the theory language). The error is what
  \<open>sys.exc_info()\<close> returns: the class, the exception and the traceback, which has no
  structure here.
\<close>

datatype traceback = Traceback

type_synonym exc_info = "exc_class \<times> exn \<times> traceback"

record Result =
  status :: pyval
  output' :: pyval
  error :: "exc_info option"

definition sys_exc_info :: "exn \<Rightarrow> exc_info" where
  "sys_exc_info e = (exc_type e, e, Traceback)"

fun exc_name :: "exc_class \<Rightarrow> string" where
  "exc_name ValueError = ''ValueError''"
| "exc_name TypeError = ''TypeError''"
| "exc_name IndexError = ''IndexError''"
| "exc_name AttributeError = ''AttributeError''"
| "exc_name KeyError = ''KeyError''"
| "exc_name OverflowError = ''OverflowError''"
| "exc_name ArgumentError = ''ArgumentError''"
| "exc_name SystemExit = ''SystemExit''"
| "exc_name KeyboardInterrupt = ''KeyboardInterrupt''"
| "exc_name GeneratorExit = ''GeneratorExit''"
| "exc_name (UserException n) = n"
| "exc_name (UserBaseException n) = n"
| "exc_name OutsideModel = []"

text \<open>The calls of the \<open>logging\<close> module, in order: the level and the message.\<close>

datatype log_level = DEBUG | INFO | ERROR

type_synonym log = "(log_level \<times> string) list"

text \<open>
  What the program reads from its surroundings: \<open>os.linesep\<close>, \<open>sys.argv\<close>, the two
  readings of the clock in \<open>execute\<close> as \<open>strftime\<close> formats them, their difference as
  \<open>str\<close> formats it, the text \<open>format_exc()\<close> gives for an exception, and the converters.
\<close>

record environ =
  os_linesep :: string
  sys_argv :: "string list"
  start_time :: string
  end_time :: string
  elapsed :: string
  format_exc :: "exn \<Rightarrow> string"
  converters :: externals

text \<open>Truth value of a string or \<open>None\<close>, and \<open>a or b\<close> on such values.\<close>

definition opt_truthy :: "string option \<Rightarrow> bool" where
  "opt_truthy v \<longleftrightarrow> v \<noteq> None \<and> v \<noteq> Some []"

definition opt_or :: "string option \<Rightarrow> string option \<Rightarrow> string option" where
  "opt_or a b = (if opt_truthy a then a else b)"

record CLITool =
  func :: pyfunc
  label :: "string option"
  tool_description :: "string option"
  func_help :: "odict option"
  parse_doc :: bool
  logmngr :: pyfunc
  tool_parser :: "parser option"

text \<open>
  \<open>CLITool.execute(*args, **kwargs)\<close>: the result, or the exception that leaves the method,
  and the messages logged. \<open>except Exception\<close> catches the exceptions whose class derives
  from \<open>Exception\<close>; the \<open>finally\<close> block logs the closing message with the status at that
  moment and lets any other exception pass.
  \<^verbatim>\<open>
  try:
      status, output, error = 0, None, None
      start = datetime.datetime.now()
      if self.label: logging.info(self.label)
      logging.info("Start Time: %s", start.strftime(datefmt))
      output = self.func(*args, **kwargs)
  except Exception:
      error = sys.exc_info()
      logging.error("%s: %s", error[0].__name__, error[1])
      logging.debug(format_exc())
      status = 1
  finally:
      end = datetime.datetime.now()
      elapsed = str(end - start)[:-4]
      if status == 0: closing = "SUCCEEDED at %s (Elapsed Time: %s)\n"
      else: closing = "FAILED at %s (Elapsed Time: %s)\n"
      logging.info(closing, end.strftime(datefmt), elapsed)
  return Result(status, output, error)
  \<close>
\<close>

definition closing :: "environ \<Rightarrow> int \<Rightarrow> log_level \<times> string" where
  "closing env st =
     (INFO, (if st = 0 then ''SUCCEEDED at '' else ''FAILED at '') @ end_time env
            @ '' (Elapsed Time: '' @ take (length (elapsed env) - 4) (elapsed env)
            @ '')'' @ [CHR 0x0A])"

definition execute ::
  "environ \<Rightarrow> CLITool \<Rightarrow> pyval list \<Rightarrow> (string \<times> pyval) list \<Rightarrow> (exn + Result) \<times> log" where
  "execute env self posargs kwargs =
     (let started = (if opt_truthy (label self) then [(INFO, the (label self))] else [])
                    @ [(INFO, ''Start Time: '' @ start_time env)]
      in case py_call (func self) posargs kwargs of
           Inr out \<Rightarrow>
             (Inr \<lparr>status = PInt 0, output' = out, error = None\<rparr>, started @ [closing env 0])
         | Inl e \<Rightarrow>
             if derives_Exception (exc_type e) then
               (Inr \<lparr>status = PInt 1, output' = PNone, error = Some (sys_exc_info e)\<rparr>,
                started
                @ [(ERROR, exc_name (exc_type e) @ '': '' @ exc_value e),
                   (DEBUG, format_exc env e), closing env 1])
             else (Inl e, started @ [closing env 0]))"

section \<open>\<open>config_logging\<close> and the callables of the tests\<close>

text \<open>
  \<open>config_logging(logfile=None, logwrite=None, loglevel=20)\<close> attaches handlers to the root
  logger and returns \<open>None\<close>. Opening a log file is left outside the model.
\<close>

definition config_logging :: pyfunc where
  "config_logging =
     \<lparr> fargs = [''logfile'', ''logwrite'', ''loglevel''], fvarargs = None, fkeywords = None,
       fdefaults = [PNone, PNone, PInt 20],
       fdoc = Some (''Configure logging to emit messages to the console and optional log files.''
         @ [CHR 0x0A, CHR 0x0A] @ ''Args:'' @ [CHR 0x0A]
         @ ''    logfile: log file name; file is opened in append mode.'' @ [CHR 0x0A]
         @ ''    logwrite: log file name; file is opened in write mode.'' @ [CHR 0x0A]
         @ ''    loglevel: logging level; default is 20 (logging.INFO).''),
       freceiver = None,
       fbody = (\<lambda>env.
         if truthy (the (env ''logfile'')) \<or> truthy (the (env ''logwrite'')) then Inl outside
         else if isinstance (the (env ''loglevel'')) Cls_int then Inr PNone
         else Inl outside) \<rparr>"

text \<open>
  \<open>_test1(param1, param2, *args, **kwargs)\<close> of the test suite, which returns
  \<open>(param1, param2, args, kwargs)\<close>.
\<close>

definition test1 :: pyfunc where
  "test1 =
     \<lparr> fargs = [''param1'', ''param2''], fvarargs = Some ''args'', fkeywords = Some ''kwargs'',
       fdefaults = [],
       fdoc = Some (''Sample function for TestCase.'' @ [CHR 0x0A, CHR 0x0A]
         @ ''Returns the supplied values.'' @ [CHR 0x0A, CHR 0x0A]
         @ ''Args:'' @ [CHR 0x0A]
         @ ''    param1: parameter 1'' @ [CHR 0x0A]
         @ ''    param2: parameter 2'' @ [CHR 0x0A]
         @ ''    args: var-positional'' @ [CHR 0x0A]
         @ ''    kwargs: JSON-encoded string'' @ [CHR 0x0A, CHR 0x0A]
         @ ''Returns:'' @ [CHR 0x0A]
         @ ''    tuple: (param1, param2, args, kwargs''),
       freceiver = None,
       fbody = (\<lambda>env. Inr (PTuple [the (env ''param1''), the (env ''param2''),
                                   the (env ''args''), the (env ''kwargs'')])) \<rparr>"

text \<open>A callable with a boolean and an integer default: \<open>def sample(path, force=False, n=3)\<close>.\<close>

definition sample_func :: pyfunc where
  "sample_func =
     \<lparr> fargs = [''path'', ''force'', ''n''], fvarargs = None, fkeywords = None,
       fdefaults = [PBool False, PInt 3], fdoc = None, freceiver = None,
       fbody = (\<lambda>env. Inr PNone) \<rparr>"

section \<open>\<open>CLITool\<close>\<close>

text \<open>
  \<open>CLITool(func, label, description, func_help, parse_doc, logmngr)\<close>:
  \<open>self.description = description or label\<close>, \<open>self.logmngr = logmngr or config_logging\<close>.
\<close>

definition CLITool_init ::
  "pyfunc \<Rightarrow> string option \<Rightarrow> string option \<Rightarrow> odict option \<Rightarrow> bool \<Rightarrow> pyfunc option \<Rightarrow> CLITool" where
  "CLITool_init f lbl descr fh pd lm =
     \<lparr> func = f, label = lbl, tool_description = opt_or descr lbl, func_help = fh,
       parse_doc = pd, logmngr = (case lm of None \<Rightarrow> config_logging | Some m \<Rightarrow> m),
       tool_parser = None \<rparr>"

text \<open>
  The body of the property \<open>parser\<close> when no parser is cached: the label, the description
  and the help texts (the attributes of the tool come before the parsed documentation),
  the arguments of the target function, then the arguments of the logging manager with
  the help texts of its documentation.
\<close>

definition build_parser :: "environ \<Rightarrow> CLITool \<Rightarrow> exn + parser" where
  "build_parser env self =
     (case (if parse_doc self then
              (case parse_docstr (os_linesep env) (fdoc (func self)) of
                 Inl e \<Rightarrow> Inl e
               | Inr parsed \<Rightarrow>
                   (case (if (func_help self = None \<or> func_help self = Some [])
                             \<and> opt_truthy (args parsed)
                          then (case parse_docargs (the (args parsed)) of
                                  Inl e \<Rightarrow> Inl e
                                | Inr d \<Rightarrow> Inr (Some d))
                          else Inr (func_help self)) of
                      Inl e \<Rightarrow> Inl e
                    | Inr fh \<Rightarrow>
                        Inr (opt_or (label self) (summary parsed),
                             opt_or (tool_description self) (description parsed), fh)))
            else Inr (label self, tool_description self, func_help self)) of
        Inl e \<Rightarrow> Inl e
      | Inr (lbl, descr, fh) \<Rightarrow>
          (case config_parser (ArgumentParser lbl descr True ''@'') (func self) fh of
             Inl e \<Rightarrow> Inl e
           | Inr p \<Rightarrow>
               (case parse_docstr (os_linesep env) (fdoc (logmngr self)) of
                  Inl e \<Rightarrow> Inl e
                | Inr parsed \<Rightarrow>
                    (case (if opt_truthy (args parsed)
                           then (case parse_docargs (the (args parsed)) of
                                   Inl e \<Rightarrow> Inl e
                                 | Inr d \<Rightarrow> Inr (Some d))
                           else Inr None) of
                       Inl e \<Rightarrow> Inl e
                     | Inr fh' \<Rightarrow> config_parser p (logmngr self) fh'))))"

text \<open>The property \<open>parser\<close>: the cached parser, built and cached at the first access.\<close>

definition CLITool_parser :: "environ \<Rightarrow> CLITool \<Rightarrow> (exn + parser) \<times> CLITool" where
  "CLITool_parser env self =
     (case tool_parser self of
        Some p \<Rightarrow> (Inr p, self)
      | None \<Rightarrow>
          (case build_parser env self of
             Inl e \<Rightarrow> (Inl e, self)
           | Inr p \<Rightarrow> (Inr p, self\<lparr>tool_parser := Some p\<rparr>)))"

text \<open>
  \<open>CLITool.__call__(*args)\<close>: the result or the exception, the messages logged and the
  tool with its cached parser. The parsed values are passed to \<open>_getcallargs\<close> as keyword
  arguments, so a value named \<open>func\<close> collides with the first parameter of \<open>_getcallargs\<close>.
  \<^verbatim>\<open>
  args = args or sys.argv[1:]
  params = vars(self.parser.parse_args(args))
  logargs, logkwargs = _getcallargs(self.logmngr, **params)
  execargs, execkwargs = _getcallargs(self.func, **params)
  self.logmngr(*logargs, **logkwargs)
  result = self.execute(*execargs, **execkwargs)
  logging.shutdown()
  return result
  \<close>
\<close>

definition CLITool_call ::
  "environ \<Rightarrow> CLITool \<Rightarrow> string list \<Rightarrow> ((exn + Result) \<times> log) \<times> CLITool" where
  "CLITool_call env self strs =
     (case CLITool_parser env self of
        (Inl e, self') \<Rightarrow> ((Inl e, []), self')
      | (Inr p, self') \<Rightarrow>
          (case parse_args (converters env) p (if strs \<noteq> [] then strs else drop 1 (sys_argv env)) of
             Inl e \<Rightarrow> ((Inl e, []), self')
           | Inr params \<Rightarrow>
               if ''func'' \<in> fst ` set params
               then ((Inl (Exn TypeError (''multiple values for argument '' @ quoted ''func'')),
                      []), self')
               else
                 (case getcallargs (logmngr self') params of
                    Inl e \<Rightarrow> ((Inl e, []), self')
                  | Inr (logargs, logkwargs) \<Rightarrow>
                      (case getcallargs (func self') params of
                         Inl e \<Rightarrow> ((Inl e, []), self')
                       | Inr (execargs, execkwargs) \<Rightarrow>
                           (case py_call (logmngr self') logargs logkwargs of
                              Inl e \<Rightarrow> ((Inl e, []), self')
                            | Inr _ \<Rightarrow> (execute env self' execargs execkwargs, self'))))))"

section \<open>\<open>CLIToolbox\<close>\<close>

text \<open>
  A command of a toolbox is a callable that takes the strings of a command line and
  returns a \<open>Result\<close> or any other value, taken as a status code; \<open>cmd_doc\<close> is what
  \<open>inspect.getdoc\<close> returns for it. What the toolbox prints is not modelled.
\<close>

datatype retval = Ret_Result Result | Ret_other pyval

record command =
  cmd_doc :: "string option"
  cmd_call :: "string list \<Rightarrow> exn + retval"

record CLIToolbox =
  tb_description :: "string option"
  tb_parser :: "parser option"
  tb_commands :: "(command \<times> string \<times> string option) list"

definition CLIToolbox_init :: "string option \<Rightarrow> CLIToolbox" where
  "CLIToolbox_init descr = \<lparr> tb_description = descr, tb_parser = None, tb_commands = [] \<rparr>"

text \<open>
  The property \<open>parser\<close>:
  \<^verbatim>\<open>
  if self._parser is None:
      parser = ArgumentParser(description=self.description, add_help=False,
                              fromfile_prefix_chars="@")
      choices = [item[1] for item in self._commands]
      parser.add_argument("subcommand", choices=choices, nargs="?")
      self._parser = parser
  return self._parser
  \<close>
\<close>

definition CLIToolbox_parser :: "CLIToolbox \<Rightarrow> (exn + parser) \<times> CLIToolbox" where
  "CLIToolbox_parser self =
     (case tb_parser self of
        Some p \<Rightarrow> (Inr p, self)
      | None \<Rightarrow>
          (case add_argument (ArgumentParser (tb_description self) None False ''@'')
                  ''subcommand'' PNone None None Nargs_Optional
                  (Some (map (\<lambda>item. fst (snd item)) (tb_commands self))) of
             Inl e \<Rightarrow> (Inl e, self)
           | Inr p \<Rightarrow> (Inr p, self\<lparr>tb_parser := Some p\<rparr>)))"

text \<open>
  \<open>add_command(func, name, description=None, parse_doc=False)\<close>: the exception if one is
  raised, and the toolbox afterwards.
  \<^verbatim>\<open>
  if " " in name:
      raise ValueError("name cannot contain spaces; got '%s'" % name)
  if parse_doc and not description:
      parsed = parse_docstr(inspect.getdoc(func))
      description = parsed.summary or parsed.description
  self._parser = None
  self._commands.append((func, name, description))
  \<close>
\<close>

definition add_command ::
  "string \<Rightarrow> CLIToolbox \<Rightarrow> command \<Rightarrow> string \<Rightarrow> string option \<Rightarrow> bool \<Rightarrow>
   (exn + unit) \<times> CLIToolbox" where
  "add_command sep self f name descr pd =
     (if CHR '' '' \<in> set name
      then (Inl (Exn ValueError (''name cannot contain spaces; got '' @ quoted name)), self)
      else (case (if pd \<and> \<not> opt_truthy descr
                  then (case parse_docstr sep (cmd_doc f) of
                          Inl e \<Rightarrow> Inl e
                        | Inr parsed \<Rightarrow> Inr (opt_or (summary parsed) (description parsed)))
                  else Inr descr) of
              Inl e \<Rightarrow> (Inl e, self)
            | Inr d \<Rightarrow>
                (Inr (), self\<lparr>tb_parser := None,
                              tb_commands := tb_commands self @ [(f, name, d)]\<rparr>)))"

text \<open>
  \<open>CLIToolbox.__call__(*args)\<close>: the result or the exception, and the toolbox with its
  cached parser. Without a subcommand the toolbox prints the help and exits with status 0.
  \<^verbatim>\<open>
  this, extra = self.parser.parse_known_args(args)
  if not this.subcommand:
      ...
      sys.exit(0)
  subparser = next((item[0] for item in self._commands
                    if item[1] == this.subcommand), None)
  if extra: result = subparser(*extra)
  else: result = subparser("-h")
  if not isinstance(result, Result):
      result = Result(result, None, None)
  return result
  \<close>
\<close>

definition CLIToolbox_call ::
  "externals \<Rightarrow> CLIToolbox \<Rightarrow> string list \<Rightarrow> (exn + Result) \<times> CLIToolbox" where
  "CLIToolbox_call ext self strs =
     (case CLIToolbox_parser self of
        (Inl e, self') \<Rightarrow> (Inl e, self')
      | (Inr p, self') \<Rightarrow>
          (case parse_known_args ext p strs of
             Inl e \<Rightarrow> (Inl e, self')
           | Inr (this, extra) \<Rightarrow>
               if \<not> truthy (the (map_of this ''subcommand''))
               then (Inl (Exn SystemExit ''0''), self')
               else
                 (case find (\<lambda>item. PStr (fst (snd item)) = the (map_of this ''subcommand''))
                         (tb_commands self') of
                    None \<Rightarrow>
                      (Inl (Exn TypeError (quoted ''NoneType'' @ '' object is not callable'')),
                       self')
                  | Some item \<Rightarrow>
                      (case cmd_call (fst item) (if extra \<noteq> [] then extra else [''-h'']) of
                         Inl e \<Rightarrow> (Inl e, self')
                       | Inr (Ret_Result r) \<Rightarrow> (Inr r, self')
                       | Inr (Ret_other v) \<Rightarrow>
                           (Inr \<lparr>status = v, output' = PNone, error = None\<rparr>, self')))))"

section \<open>Sample surroundings and callables\<close>

text \<open>
  Surroundings for concrete runs: a POSIX line separator, a clock, and converters that
  know the one JSON text of the test suite.
\<close>

definition sample_externals :: externals where
  "sample_externals =
     \<lparr> int_of = (\<lambda>s. Inl (Exn ValueError (''invalid literal for int(): '' @ quoted s))),
       float_of = (\<lambda>s. Inl (Exn ValueError (''could not convert string to float: '' @ quoted s))),
       to_date = (\<lambda>s. Inl (Exn ValueError (''Unknown string format: '' @ s))),
       json_loads = (\<lambda>s. if s = ''{\"E\": 5}'' then Inr (PDict [(''E'', PInt 5)])
                          else Inl (Exn ValueError ''Expecting value'')) \<rparr>"

definition sample_env :: environ where
  "sample_env =
     \<lparr> os_linesep = [CHR 0x0A], sys_argv = [''prog''],
       start_time = ''2019-08-31 12:00:00'', end_time = ''2019-08-31 12:00:01'',
       elapsed = ''0:00:01.250000'', format_exc = (\<lambda>e. ''Traceback (most recent call last):''),
       converters = sample_externals \<rparr>"


text \<open>A command that ignores its arguments and returns the status code \<open>v\<close>.\<close>

definition status_command :: "pyval \<Rightarrow> command" where
  "status_command v = \<lparr> cmd_doc = None, cmd_call = (\<lambda>strs. Inr (Ret_other v)) \<rparr>"

section \<open>Auxiliary notions of the proofs\<close>

text \<open>The option strings of a parser, and a flag held by exactly the arguments with a given
  converter and default.\<close>

definition opt_strings :: "parser \<Rightarrow> string set" where
  "opt_strings p = set (concat (map option_strings (actions p)))"

definition flag_owned :: "parser \<Rightarrow> string \<Rightarrow> conv option \<Rightarrow> pyval \<Rightarrow> bool" where
  "flag_owned p flag t d \<longleftrightarrow>
     (\<exists>a\<in>set (actions p). option_strings a = [flag]) \<and>
     (\<forall>a\<in>set (actions p). flag \<in> set (option_strings a) \<longrightarrow> type_conv a = t \<and> default_value a = d)"

text \<open>
  The parser the property \<open>parser\<close> of a toolbox builds for a description and a list of
  command names, and the names of the commands of a toolbox.
\<close>

definition subcommand_action :: "string list \<Rightarrow> action" where
  "subcommand_action names =
     \<lparr> option_strings = [], dest = Some ''subcommand'', nargs = Nargs_Optional,
       default_value = PNone, type_conv = None, choices = Some names,
       help_text = None, required = False, is_help = False \<rparr>"

definition subcommand_parser :: "string option \<Rightarrow> string list \<Rightarrow> parser" where
  "subcommand_parser descr names =
     \<lparr> p_description = descr, p_epilog = None, fromfile_prefix_chars = ''@'',
       actions = [subcommand_action names] \<rparr>"

definition names_of :: "CLIToolbox \<Rightarrow> string list" where
  "names_of tb = map (\<lambda>item. fst (snd item)) (tb_commands tb)"

text \<open>The cached parser of a toolbox, if there is one, is the parser of its current commands.\<close>

definition cache_current :: "CLIToolbox \<Rightarrow> bool" where
  "cache_current tb \<longleftrightarrow>
     tb_parser tb = None \<or>
     tb_parser tb = Some (subcommand_parser (tb_description tb) (names_of tb))"

text \<open>
  The uses of a toolbox: registering a command and invoking the toolbox, in any order. A
  program that catches the exception of one use goes on with the toolbox as that use left
  it.
\<close>

datatype toolbox_op = Add_command command string "string option" bool | Invoke "string list"

fun apply_op :: "string \<Rightarrow> externals \<Rightarrow> CLIToolbox \<Rightarrow> toolbox_op \<Rightarrow> CLIToolbox" where
  "apply_op sep ext tb (Add_command f name descr pd) = snd (add_command sep tb f name descr pd)"
| "apply_op sep ext tb (Invoke strs) = snd (CLIToolbox_call ext tb strs)"

definition toolbox_after ::
  "string \<Rightarrow> externals \<Rightarrow> string option \<Rightarrow> toolbox_op list \<Rightarrow> CLIToolbox" where
  "toolbox_after sep ext descr ops = foldl (apply_op sep ext) (CLIToolbox_init descr) ops"

text \<open>What \<open>CLIToolbox.__call__\<close> makes of the outcome of the command it invoked.\<close>

definition as_Result :: "exn + retval \<Rightarrow> exn + Result" where
  "as_Result r =
     (case r of
        Inl e \<Rightarrow> Inl e
      | Inr (Ret_Result res) \<Rightarrow> Inr res
      | Inr (Ret_other v) \<Rightarrow> Inr \<lparr>status = v, output' = PNone, error = None\<rparr>)"

text \<open>
  A string of the command line that the model of argparse reads as typed: it is not the
  separator \<open>--\<close> and does not name a file of arguments.
\<close>

definition plain :: "string \<Rightarrow> bool" where
  "plain s \<longleftrightarrow> s \<noteq> ''--'' \<and> (s = [] \<or> hd s \<noteq> CHR ''@'')"

text \<open>
  The parser that \<open>CLITool(_test1)\<close> builds: the help option, the arguments of \<open>_test1\<close>
  and the options of \<open>config_logging\<close> with the help texts of its documentation.
\<close>

definition test1_parser :: parser where
  "test1_parser =
     \<lparr> p_description = None, p_epilog = None, fromfile_prefix_chars = ''@'',
       actions =
         [help_action,
          \<lparr> option_strings = [], dest = Some ''param1'', nargs = Nargs_None,
            default_value = PNone, type_conv = None, choices = None, help_text = None,
            required = True, is_help = False \<rparr>,
          \<lparr> option_strings = [], dest = Some ''param2'', nargs = Nargs_None,
            default_value = PNone, type_conv = None, choices = None, help_text = None,
            required = True, is_help = False \<rparr>,
          \<lparr> option_strings = [], dest = Some ''args'', nargs = Nargs_ZeroOrMore,
            default_value = PNone, type_conv = None, choices = None, help_text = None,
            required = True, is_help = False \<rparr>,
          \<lparr> option_strings = [''--kwargs''], dest = Some ''kwargs'', nargs = Nargs_None,
            default_value = PNone, type_conv = Some Conv_json_loads, choices = None,
            help_text = None, required = False, is_help = False \<rparr>,
          \<lparr> option_strings = [''--logfile''], dest = Some ''logfile'', nargs = Nargs_None,
            default_value = PNone, type_conv = None, choices = None,
            help_text = Some ''log file name; file is opened in append mode.'',
            required = False, is_help = False \<rparr>,
          \<lparr> option_strings = [''--logwrite''], dest = Some ''logwrite'', nargs = Nargs_None,
            default_value = PNone, type_conv = None, choices = None,
            help_text = Some ''log file name; file is opened in write mode.'',
            required = False, is_help = False \<rparr>,
          \<lparr> option_strings = [''--loglevel''], dest = Some ''loglevel'', nargs = Nargs_None,
            default_value = PInt 20, type_conv = Some Conv_int, choices = None,
            help_text = Some ''logging level; default is 20 (logging.INFO).'',
            required = False, is_help = False \<rparr>] \<rparr>"

lemmas ch_defs =
  lower_ch_def upper_ch_def isupper_ch_def islower_ch_def iscased_ch_def
  ascii_uppercase_def ascii_lowercase_def

section \<open>Facts about \<open>_to_bool\<close>\<close>

lemma lower_ch_t: "lower_ch c = CHR ''t'' \<longleftrightarrow> c = CHR ''t'' \<or> c = CHR ''T''"
  by (auto simp add: ch_defs split: if_splits)
lemma upper_ch_T: "upper_ch c = CHR ''T'' \<longleftrightarrow> c = CHR ''t'' \<or> c = CHR ''T''"
  by (auto simp add: ch_defs split: if_splits)
lemma lower_ch_f: "lower_ch c = CHR ''f'' \<longleftrightarrow> c = CHR ''f'' \<or> c = CHR ''F''"
  by (auto simp add: ch_defs split: if_splits)
lemma upper_ch_F: "upper_ch c = CHR ''F'' \<longleftrightarrow> c = CHR ''f'' \<or> c = CHR ''F''"
  by (auto simp add: ch_defs split: if_splits)
lemma upper_ch_1: "upper_ch c = CHR ''1'' \<longleftrightarrow> c = CHR ''1''"
  by (auto simp add: ch_defs split: if_splits)
lemma upper_ch_0: "upper_ch c = CHR ''0'' \<longleftrightarrow> c = CHR ''0''"
  by (auto simp add: ch_defs split: if_splits)

lemma islower_lower_cased: "islower_ch (lower_ch c) \<Longrightarrow> iscased_ch c"
  by (auto simp add: ch_defs split: if_splits)

lemma title_from_True_lower:
  "\<forall>x\<in>set w. islower_ch x \<Longrightarrow> title_from True s = w \<longleftrightarrow> lower s = w"
proof (induction s arbitrary: w)
  case Nil
  then show ?case by (simp add: lower_def)
next
  case (Cons c cs)
  show ?case
  proof (cases w)
    case Nil
    then show ?thesis by (simp add: lower_def)
  next
    case (Cons x xs)
    with Cons.prems have x: "islower_ch x" and xs: "\<forall>y\<in>set xs. islower_ch y" by simp_all
    have tl: "title_from True cs = xs \<longleftrightarrow> lower cs = xs" using Cons.IH [OF xs] .
    show ?thesis
    proof (cases "lower_ch c = x")
      case True
      with x have "iscased_ch c" using islower_lower_cased by blast
      with True tl Cons show ?thesis by (simp add: lower_def)
    next
      case False
      with Cons show ?thesis by (simp add: lower_def)
    qed
  qed
qed

lemma title_True: "title t = ''True'' \<longleftrightarrow> lower t = ''true''"
proof (cases t)
  case Nil
  then show ?thesis by (simp add: title_def lower_def)
next
  case (Cons c cs)
  have rue: "\<forall>x\<in>set ''rue''. islower_ch x" by (simp add: ch_defs)
  have cased: "iscased_ch CHR ''t''" "iscased_ch CHR ''T''" by (simp_all add: ch_defs)
  have "title t = ''True'' \<longleftrightarrow> upper_ch c = CHR ''T'' \<and> title_from (iscased_ch c) cs = ''rue''"
    using Cons by (simp add: title_def)
  also have "\<dots> \<longleftrightarrow> lower_ch c = CHR ''t'' \<and> title_from True cs = ''rue''"
    using cased by (auto simp add: upper_ch_T lower_ch_t)
  also have "\<dots> \<longleftrightarrow> lower_ch c = CHR ''t'' \<and> lower cs = ''rue''"
    using title_from_True_lower [OF rue] by simp
  also have "\<dots> \<longleftrightarrow> lower t = ''true''"
    using Cons by (simp add: lower_def)
  finally show ?thesis .
qed

lemma title_False: "title t = ''False'' \<longleftrightarrow> lower t = ''false''"
proof (cases t)
  case Nil
  then show ?thesis by (simp add: title_def lower_def)
next
  case (Cons c cs)
  have alse: "\<forall>x\<in>set ''alse''. islower_ch x" by (simp add: ch_defs)
  have cased: "iscased_ch CHR ''f''" "iscased_ch CHR ''F''" by (simp_all add: ch_defs)
  have "title t = ''False'' \<longleftrightarrow> upper_ch c = CHR ''F'' \<and> title_from (iscased_ch c) cs = ''alse''"
    using Cons by (simp add: title_def)
  also have "\<dots> \<longleftrightarrow> lower_ch c = CHR ''f'' \<and> title_from True cs = ''alse''"
    using cased by (auto simp add: upper_ch_F lower_ch_f)
  also have "\<dots> \<longleftrightarrow> lower_ch c = CHR ''f'' \<and> lower cs = ''alse''"
    using title_from_True_lower [OF alse] by simp
  also have "\<dots> \<longleftrightarrow> lower t = ''false''"
    using Cons by (simp add: lower_def)
  finally show ?thesis .
qed

lemma title_singleton: "title t = [d] \<longleftrightarrow> (\<exists>c. t = [c] \<and> upper_ch c = d)"
proof (cases t)
  case Nil
  then show ?thesis by (simp add: title_def)
next
  case (Cons c cs)
  then show ?thesis by (cases cs) (auto simp add: title_def)
qed

lemma title_1: "title t = ''1'' \<longleftrightarrow> t = ''1''"
  by (auto simp add: title_singleton upper_ch_1)

lemma title_0: "title t = ''0'' \<longleftrightarrow> t = ''0''"
  by (auto simp add: title_singleton upper_ch_0)

lemma lower_digit: "lower ''1'' = ''1''" "lower ''0'' = ''0''"
  by (simp_all add: lower_def ch_defs)

text \<open>
  C7, as amended. \<open>_to_bool\<close> compares \<open>text.title()\<close> with the literals, so the spelling
  of the words is free in case: it returns true exactly for the string \<open>1\<close> and the strings
  that read \<open>true\<close> once lower-cased, false exactly for \<open>0\<close> and the strings that read
  \<open>false\<close> once lower-cased, and raises the value error that names the allowed literals
  for every other string.
\<close>

theorem to_bool_case_insensitive:
  "(to_bool t = Inr True \<longleftrightarrow> lower t = ''true'' \<or> t = ''1'') \<and>
   (to_bool t = Inr False \<longleftrightarrow> lower t = ''false'' \<or> t = ''0'') \<and>
   (to_bool t = Inl (Exn ValueError (''Expected 'True', 'False', '1', '0'; got '' @ quoted t))
      \<longleftrightarrow> \<not> (lower t = ''true'' \<or> t = ''1'' \<or> lower t = ''false'' \<or> t = ''0''))"
  by (auto simp add: to_bool_def title_True title_False title_1 title_0 lower_digit)

text \<open>
  C7 as stated fails: \<open>true\<close> in lower case is neither of the literals \<open>True\<close> and \<open>1\<close>,
  and is converted to true all the same.
\<close>

theorem to_bool_lowercase_true:
  "to_bool ''true'' = Inr True \<and> ''true'' \<noteq> ''True'' \<and> ''true'' \<noteq> ''1''"
  by (simp add: to_bool_def title_def ch_defs)

section \<open>Facts about \<open>_parse_docargs\<close>\<close>

lemma match_docarg_name: "match_docarg l = Some (n, d) \<Longrightarrow> n \<noteq> []"
  by (auto simp add: match_docarg_def Let_def split: if_splits list.splits)

lemma map_of_od_set_same: "map_of (od_set r k v) k = Some v"
  by (induction r k v rule: od_set.induct) auto

lemma od_set_twice: "od_set (od_set r k v) k w = od_set r k w"
  by (induction r k v rule: od_set.induct) auto

lemma od_set_id: "map_of r k = Some v \<Longrightarrow> od_set r k v = r"
  by (induction r k v rule: od_set.induct) (auto split: if_splits)

lemma keys_od_set:
  "map fst (od_set r k v) = (if k \<in> set (map fst r) then map fst r else map fst r @ [k])"
  by (induction r k v rule: od_set.induct) auto

lemma docargs_loop_started:
  "map_of r n = Some v \<Longrightarrow> n \<noteq> [] \<Longrightarrow>
   docargs_loop r (Some n) ls =
     Inr (foldl (\<lambda>r (n, d). od_set r n d)
            (od_set r n (v @ concat (map (\<lambda>l. '' '' @ strip l)
                 (takeWhile (\<lambda>l. match_docarg l = None) ls))))
            (docargs_entries ls))"
proof (induction ls arbitrary: r n v)
  case Nil
  then show ?case by (simp add: od_set_id)
next
  case (Cons l ls)
  show ?case
  proof (cases "match_docarg l")
    case None
    have "map_of (od_set r n (v @ '' '' @ strip l)) n = Some (v @ '' '' @ strip l)"
      by (rule map_of_od_set_same)
    from Cons.IH [OF this Cons.prems(2)] None Cons.prems show ?thesis
      by (simp add: od_set_twice)
  next
    case (Some p)
    obtain m d where p: "p = (m, d)" by (cases p)
    with Some have m: "m \<noteq> []" using match_docarg_name by blast
    have "map_of (od_set r m (strip d)) m = Some (strip d)"
      by (rule map_of_od_set_same)
    from Cons.IH [OF this m] Some p Cons.prems show ?thesis
      by (simp add: od_set_twice od_set_id)
  qed
qed

lemma first_seen_snoc:
  "first_seen (xs @ [x]) = (if x \<in> set xs then first_seen xs else first_seen xs @ [x])"
  by (simp add: first_seen_def)

lemma set_first_seen: "set (first_seen xs) = set xs"
  by (simp add: first_seen_def)

lemma keys_docargs_fold:
  "map fst (foldl (\<lambda>r (n, d). od_set r n d) [] es) = first_seen (map fst es)"
proof (induction es rule: rev_induct)
  case Nil
  then show ?case by (simp add: first_seen_def)
next
  case (snoc e es)
  obtain k v where e: "e = (k, v)" by (cases e)
  have "set (map fst (foldl (\<lambda>r (n, d). od_set r n d) [] es)) = set (map fst es)"
    using snoc.IH set_first_seen by metis
  with snoc.IH e show ?case
    by (simp add: keys_od_set first_seen_snoc del: set_map)
qed

text \<open>
  C8. \<open>_parse_docargs\<close> computes what the specification describes: it raises the value
  error \<open>Expected name: value pair\<close> exactly when there is a line and the first line does
  not match the pattern (a non-matching line before any entry has started: once a line
  has matched, an entry is open for good), and otherwise returns the mapping of
  \<open>docargs_spec\<close>, in which every matching line starts an entry and every non-matching
  line is appended, trimmed and after a single space, to the entry started last. The keys
  of the mapping are the names of the matching lines in the order they are first seen.
\<close>

theorem parse_docargs_refines:
  "parse_docargs text =
     (let ls = splitlines text
      in if ls \<noteq> [] \<and> match_docarg (hd ls) = None
         then Inl (Exn ValueError (''Expected name: value pair; got '' @ quoted (hd ls)))
         else Inr (docargs_spec ls)) \<and>
   map fst (docargs_spec (splitlines text)) =
     first_seen (map fst (docargs_entries (splitlines text)))"
proof
  show "parse_docargs text =
     (let ls = splitlines text
      in if ls \<noteq> [] \<and> match_docarg (hd ls) = None
         then Inl (Exn ValueError (''Expected name: value pair; got '' @ quoted (hd ls)))
         else Inr (docargs_spec ls))"
  proof (cases "splitlines text")
    case Nil
    then show ?thesis by (simp add: parse_docargs_def docargs_spec_def)
  next
    case (Cons l ls)
    show ?thesis
    proof (cases "match_docarg l")
      case None
      with Cons show ?thesis by (simp add: parse_docargs_def)
    next
      case (Some p)
      obtain m d where p: "p = (m, d)" by (cases p)
      with Some have m: "m \<noteq> []" using match_docarg_name by blast
      have "map_of [(m, strip d)] m = Some (strip d)" by simp
      from docargs_loop_started [OF this m, of ls] Some p Cons show ?thesis
        by (simp add: parse_docargs_def docargs_spec_def)
    qed
  qed
next
  show "map fst (docargs_spec (splitlines text)) =
     first_seen (map fst (docargs_entries (splitlines text)))"
    by (simp add: docargs_spec_def keys_docargs_fold)
qed

text \<open>
  The first line fails to match exactly when some non-matching line has no matching line
  before it.
\<close>

lemma unstarted_line_iff:
  "(ls \<noteq> [] \<and> match_docarg (hd ls) = None) \<longleftrightarrow>
   (\<exists>pre l post. ls = pre @ l # post \<and> match_docarg l = None \<and>
      list_all (\<lambda>p. match_docarg p = None) pre)"
proof
  assume "ls \<noteq> [] \<and> match_docarg (hd ls) = None"
  then have "ls = [] @ hd ls # tl ls \<and> match_docarg (hd ls) = None \<and>
      list_all (\<lambda>p. match_docarg p = None) []"
    by simp
  then show "\<exists>pre l post. ls = pre @ l # post \<and> match_docarg l = None \<and>
      list_all (\<lambda>p. match_docarg p = None) pre"
    by blast
next
  assume "\<exists>pre l post. ls = pre @ l # post \<and> match_docarg l = None \<and>
      list_all (\<lambda>p. match_docarg p = None) pre"
  then obtain pre l post where ls: "ls = pre @ l # post" and l: "match_docarg l = None"
    and pre: "list_all (\<lambda>p. match_docarg p = None) pre"
    by blast
  show "ls \<noteq> [] \<and> match_docarg (hd ls) = None"
  proof (cases pre)
    case Nil
    with ls l show ?thesis by simp
  next
    case (Cons p ps)
    with ls pre show ?thesis by simp
  qed
qed

section \<open>Facts about \<open>parse_docstr\<close>\<close>

lemma docstr_loop_blocked:
  "\<not> test h \<Longrightarrow> ''summary'' \<notin> set later \<Longrightarrow> \<forall>s\<in>set later. h \<noteq> title s @ '':'' \<Longrightarrow>
   docstr_loop linesep later (h # rest) scratch =
     Inr (foldl (\<lambda>m s. m(s \<mapsto> None)) scratch later)"
proof (induction later arbitrary: scratch)
  case Nil
  then show ?case by simp
next
  case (Cons s later)
  from Cons.prems have "s \<noteq> ''summary''" "h \<noteq> title s @ '':''" by auto
  with Cons.prems have "section_matches s (h # rest) = Inr ([], h # rest)"
    by (simp add: section_matches_def)
  moreover have "docstr_loop linesep later (h # rest) (scratch(s \<mapsto> None)) =
     Inr (foldl (\<lambda>m s. m(s \<mapsto> None)) (scratch(s \<mapsto> None)) later)"
    by (rule Cons.IH) (use Cons.prems in auto)
  ultimately show ?case by (simp del: fun_upd_apply)
qed

text \<open>
  C4, as amended. While the body of a section with a header (\<open>Args:\<close>, \<open>Returns:\<close>,
  \<open>Yields:\<close>, \<open>Raises:\<close>) is collected, a line \<open>h\<close> that reads as a section name (in any
  case, with or without colons) ends the body: the body is joined from the lines before
  \<open>h\<close> only. When \<open>h\<close> is not the header of one of the sections still to come (it is out of
  order), it starts no section either: every later section is absent, and \<open>h\<close> and the
  lines after it are consumed by nothing.
\<close>

theorem header_line_ends_section:
  assumes s: "s \<noteq> ''summary''" "s \<noteq> ''description''"
    and body: "\<forall>l\<in>set body. test l"
    and h: "\<not> test h"
    and later: "''summary'' \<notin> set later" "\<forall>s'\<in>set later. h \<noteq> title s' @ '':''"
  shows "docstr_loop linesep (s # later) ((title s @ '':'') # body @ h # rest) scratch =
     Inr (foldl (\<lambda>m s'. m(s' \<mapsto> None))
            (scratch(s \<mapsto> if body = [] then None else Some (strip (join linesep body))))
            later)"
proof -
  have tw: "takeWhile test (body @ h # rest) = body"
    using body h by (simp add: takeWhile_tail)
  have m: "section_matches s ((title s @ '':'') # body @ h # rest) = Inr (body, body @ h # rest)"
    using s tw by (simp add: section_matches_def)
  show ?thesis
  proof (cases "body = []")
    case True
    with m docstr_loop_blocked [OF h later] show ?thesis by simp
  next
    case False
    with m docstr_loop_blocked [OF h later] show ?thesis by simp
  qed
qed

text \<open>The theorem at the lines \<open>Returns:\<close>, \<open>x\<close>, \<open>Args:\<close>, \<open>y\<close>.\<close>

theorem header_line_ends_section_witness:
  "docstr_loop [CHR 0x0A] [''returns'', ''yields'', ''raises'']
     [''Returns:'', ''x'', ''Args:'', ''y''] Map.empty =
   Inr [''returns'' \<mapsto> Some ''x'', ''yields'' \<mapsto> None, ''raises'' \<mapsto> None]"
proof -
  have t: "title ''returns'' = ''Returns''"
    by (simp add: title_def ch_defs)
  have 1: "''returns'' \<noteq> ''summary''" "''returns'' \<noteq> ''description''" by simp_all
  have 2: "\<forall>l\<in>set [''x'']. test l"
    by (simp add: test_def sections_def lower_def rstrip_chars_def ch_defs)
  have 3: "\<not> test ''Args:''"
    by (simp add: test_def sections_def lower_def rstrip_chars_def ch_defs)
  have 4: "''summary'' \<notin> set [''yields'', ''raises'']" by simp
  have 5: "\<forall>s'\<in>set [''yields'', ''raises'']. ''Args:'' \<noteq> title s' @ '':''"
    by (simp add: title_def ch_defs)
  have lhs: "(title ''returns'' @ '':'') # [''x''] @ ''Args:'' # [''y''] =
      [''Returns:'', ''x'', ''Args:'', ''y'']"
    by (simp add: t)
  have rhs: "foldl (\<lambda>m s'. m(s' \<mapsto> None))
       (Map.empty(''returns'' \<mapsto>
          if [''x''] = [] then None else Some (strip (join [CHR 0x0A] [''x'']))))
       [''yields'', ''raises''] =
     [''returns'' \<mapsto> Some ''x'', ''yields'' \<mapsto> None, ''raises'' \<mapsto> None]"
    by (simp add: strip_def lstrip_def rstrip_def isspace_ch_def)
  from header_line_ends_section [OF 1 2 3 4 5, of "[CHR 0x0A]" "[''y'']" Map.empty]
  show ?thesis unfolding lhs rhs .
qed

text \<open>
  C4 as stated fails: an \<open>Args:\<close> line after the \<open>Returns:\<close> header is not part of the
  text of \<open>returns\<close>, which is \<open>x\<close> alone; the line and what follows it are dropped.
\<close>

theorem misplaced_args_header_dropped:
  "parse_docstr [CHR 0x0A] (Some (''Returns:'' @ [CHR 0x0A] @ ''x'' @ [CHR 0x0A] @ ''Args:'' @ [CHR 0x0A] @ ''y'')) =
   Inr \<lparr> summary = None, description = None, args = None, returns = Some ''x'',
         yields = None, raises = None \<rparr>"
  by (simp add: parse_docstr_def DocInfo_of_def sections_def section_matches_def test_def
      splitlines_def islinebreak_ch_def strip_def lstrip_def rstrip_def isspace_ch_def
      lower_def rstrip_chars_def title_def ch_defs)

section \<open>Facts about \<open>_config_parser\<close>\<close>

lemma add_argument_actions:
  assumes "add_argument p name d h t n c = Inr p'"
  shows "\<exists>a. actions p' = actions p @ [a] \<and>
     (option_strings a = [] \<or>
      (option_strings a = [name] \<and> name \<notin> opt_strings p \<and> type_conv a = t \<and> default_value a = d))"
  using assms by (auto simp add: add_argument_def opt_strings_def split: if_splits)

lemma add_argument_option:
  assumes "add_argument p (argname name) d h t n c = Inr p'"
  shows "\<exists>a. actions p' = actions p @ [a] \<and> option_strings a = [argname name] \<and>
     argname name \<notin> opt_strings p \<and> type_conv a = t \<and> default_value a = d"
  using assms by (auto simp add: add_argument_def opt_strings_def argname_def split: if_splits)

lemma flag_owned_add:
  assumes "flag_owned p flag t d" and "add_argument p name d' h t' n c = Inr p'"
  shows "flag_owned p' flag t d"
proof -
  from add_argument_actions [OF assms(2)] obtain a where
    a: "actions p' = actions p @ [a]"
      "option_strings a = [] \<or> (option_strings a = [name] \<and> name \<notin> opt_strings p)"
    by blast
  from assms(1) have "flag \<in> opt_strings p"
    by (force simp add: flag_owned_def opt_strings_def)
  with a(2) have "flag \<notin> set (option_strings a)" by auto
  with assms(1) a(1) show ?thesis by (auto simp add: flag_owned_def)
qed

lemma flag_owned_new:
  assumes "add_argument p (argname name) d h t n c = Inr p'"
  shows "flag_owned p' (argname name) t d"
proof -
  from add_argument_option [OF assms] obtain a where
    a: "actions p' = actions p @ [a]" "option_strings a = [argname name]"
      "argname name \<notin> opt_strings p" "type_conv a = t" "default_value a = d"
    by blast
  from a(3) have "\<forall>b\<in>set (actions p). argname name \<notin> set (option_strings b)"
    by (auto simp add: opt_strings_def)
  with a show ?thesis by (auto simp add: flag_owned_def)
qed

lemma flag_owned_required:
  "config_required p fh req = Inr p' \<Longrightarrow> flag_owned p flag t d \<Longrightarrow> flag_owned p' flag t d"
proof (induction req arbitrary: p)
  case Nil
  then show ?case by simp
next
  case (Cons arg rest)
  then show ?case
    by (auto split: if_splits sum.splits dest: flag_owned_add)
qed

lemma flag_owned_optional:
  "config_optional p fh opt = Inr p' \<Longrightarrow> flag_owned p flag t d \<Longrightarrow> flag_owned p' flag t d"
proof (induction opt arbitrary: p)
  case Nil
  then show ?case by simp
next
  case (Cons nd rest)
  obtain n0 d0 where nd: "nd = (n0, d0)" by (cases nd)
  from Cons.prems(1) nd obtain p1 t0 where
    p1: "add_argument p (argname n0) d0 (help_for fh n0) t0 Nargs_None None = Inr p1"
      "config_optional p1 fh rest = Inr p'"
    by (auto simp add: Let_def split: sum.splits)
  from flag_owned_add [OF Cons.prems(2) p1(1)] Cons.IH [OF p1(2)] show ?case by blast
qed

lemma converter_table:
  "(if isinstance d Cls_bool then Some Conv_to_bool
    else if isinstance d Cls_int then Some Conv_int
    else if isinstance d Cls_float then Some Conv_float
    else if isinstance d Cls_datetime then Some Conv_to_date
    else None) =
   (case d of PBool _ \<Rightarrow> Some Conv_to_bool | PInt _ \<Rightarrow> Some Conv_int
    | PFloat _ _ \<Rightarrow> Some Conv_float | PDateTime _ \<Rightarrow> Some Conv_to_date | _ \<Rightarrow> None)"
  by (cases d) (simp_all add: isinstance_def issubclass_def)

lemma config_optional_owned:
  "config_optional p fh opt = Inr p' \<Longrightarrow> (name, d) \<in> set opt \<Longrightarrow>
   flag_owned p' (argname name)
     (case d of PBool _ \<Rightarrow> Some Conv_to_bool | PInt _ \<Rightarrow> Some Conv_int
      | PFloat _ _ \<Rightarrow> Some Conv_float | PDateTime _ \<Rightarrow> Some Conv_to_date | _ \<Rightarrow> None) d"
proof (induction opt arbitrary: p)
  case Nil
  then show ?case by simp
next
  case (Cons nd rest)
  obtain n0 d0 where nd: "nd = (n0, d0)" by (cases nd)
  let ?t = "\<lambda>d. case d of PBool _ \<Rightarrow> Some Conv_to_bool | PInt _ \<Rightarrow> Some Conv_int
      | PFloat _ _ \<Rightarrow> Some Conv_float | PDateTime _ \<Rightarrow> Some Conv_to_date | _ \<Rightarrow> None"
  from Cons.prems(1) nd obtain p1 where
    p1: "add_argument p (argname n0) d0 (help_for fh n0) (?t d0) Nargs_None None = Inr p1"
      "config_optional p1 fh rest = Inr p'"
    by (auto simp add: Let_def converter_table split: sum.splits)
  show ?case
  proof (cases "(name, d) = (n0, d0)")
    case True
    with flag_owned_new [OF p1(1)] flag_owned_optional [OF p1(2)] show ?thesis by auto
  next
    case False
    with Cons.prems(2) nd have "(name, d) \<in> set rest" by auto
    from Cons.IH [OF p1(2) this] show ?thesis .
  qed
qed

text \<open>
  C6. When \<open>_config_parser\<close> succeeds, every optional parameter \<open>(name, default)\<close> of the
  function has its option in the parser, and whatever argument of the parser answers to
  that option string carries the default and the converter chosen from the runtime type
  of the default: the strict boolean converter for a boolean (although a boolean is an
  instance of \<open>int\<close>), then \<open>int\<close> for an integer, \<open>float\<close> for a float, the date parser for
  a \<open>datetime\<close>, and no converter for a default of any other type, \<open>None\<close> included.
\<close>

theorem config_parser_converter:
  assumes "config_parser p f fh = Inr p'"
    and "(name, dflt) \<in> set (zip (drop (length (fargs f) - length (fdefaults f)) (fargs f))
                                (fdefaults f))"
  shows "(\<exists>a\<in>set (actions p'). option_strings a = [argname name]) \<and>
     (\<forall>a\<in>set (actions p'). argname name \<in> set (option_strings a) \<longrightarrow>
        default_value a = dflt \<and>
        type_conv a =
          (case dflt of PBool _ \<Rightarrow> Some Conv_to_bool | PInt _ \<Rightarrow> Some Conv_int
           | PFloat _ _ \<Rightarrow> Some Conv_float | PDateTime _ \<Rightarrow> Some Conv_to_date
           | _ \<Rightarrow> None))"
proof -
  let ?t = "case dflt of PBool _ \<Rightarrow> Some Conv_to_bool | PInt _ \<Rightarrow> Some Conv_int
      | PFloat _ _ \<Rightarrow> Some Conv_float | PDateTime _ \<Rightarrow> Some Conv_to_date | _ \<Rightarrow> None"
  let ?opt = "zip (drop (length (fargs f) - length (fdefaults f)) (fargs f)) (fdefaults f)"
  from assms(1) obtain p1 p2 p3 where
    p1: "config_required p fh
           (take (length (fargs f) - length (fdefaults f)) (fargs f)) = Inr p1"
    and p2: "config_optional p1 fh ?opt = Inr p2"
    and p3: "(case fvarargs f of None \<Rightarrow> Inr p2
              | Some v \<Rightarrow> if v = [] then Inr p2
                  else add_argument p2 v PNone (help_for fh v) None Nargs_ZeroOrMore None)
             = Inr p3"
    and p4: "(case fkeywords f of None \<Rightarrow> Inr p3
              | Some k \<Rightarrow> if k = [] then Inr p3
                  else add_argument p3 (argname k) PNone (help_for fh k)
                         (Some Conv_json_loads) Nargs_None None) = Inr p'"
    by (auto simp add: config_parser_def Let_def split: sum.splits)
  from config_optional_owned [OF p2 assms(2)] have o2: "flag_owned p2 (argname name) ?t dflt" .
  from p3 o2 have o3: "flag_owned p3 (argname name) ?t dflt"
    by (auto split: option.splits if_splits dest: flag_owned_add)
  from p4 o3 have "flag_owned p' (argname name) ?t dflt"
    by (auto split: option.splits if_splits dest: flag_owned_add)
  then show ?thesis by (auto simp add: flag_owned_def)
qed

lemma sample_config:
  "config_parser (ArgumentParser None None True ''@'') sample_func None =
   Inr \<lparr> p_description = None, p_epilog = None, fromfile_prefix_chars = ''@'',
     actions = [help_action,
       \<lparr> option_strings = [], dest = Some ''path'', nargs = Nargs_None, default_value = PNone,
         type_conv = None, choices = None, help_text = None, required = True, is_help = False \<rparr>,
       \<lparr> option_strings = [''--force''], dest = Some ''force'', nargs = Nargs_None,
         default_value = PBool False, type_conv = Some Conv_to_bool, choices = None,
         help_text = None, required = False, is_help = False \<rparr>,
       \<lparr> option_strings = [''-n''], dest = Some ''n'', nargs = Nargs_None,
         default_value = PInt 3, type_conv = Some Conv_int, choices = None,
         help_text = None, required = False, is_help = False \<rparr>] \<rparr>"
  by (simp add: config_parser_def sample_func_def ArgumentParser_def add_argument_def
      help_action_def help_for_def argname_def isinstance_def issubclass_def Let_def)


text \<open>The theorem at \<open>def sample(path, force=False, n=3)\<close> and its parameter \<open>force\<close>.\<close>

theorem config_parser_converter_witness:
  "\<exists>p'. config_parser (ArgumentParser None None True ''@'') sample_func None = Inr p' \<and>
     (\<exists>a\<in>set (actions p'). option_strings a = [''--force''] \<and> default_value a = PBool False \<and>
        type_conv a = Some Conv_to_bool)"
proof -
  let ?p = "\<lparr> p_description = None, p_epilog = None, fromfile_prefix_chars = ''@'',
     actions = [help_action,
       \<lparr> option_strings = [], dest = Some ''path'', nargs = Nargs_None, default_value = PNone,
         type_conv = None, choices = None, help_text = None, required = True, is_help = False \<rparr>,
       \<lparr> option_strings = [''--force''], dest = Some ''force'', nargs = Nargs_None,
         default_value = PBool False, type_conv = Some Conv_to_bool, choices = None,
         help_text = None, required = False, is_help = False \<rparr>,
       \<lparr> option_strings = [''-n''], dest = Some ''n'', nargs = Nargs_None,
         default_value = PInt 3, type_conv = Some Conv_int, choices = None,
         help_text = None, required = False, is_help = False \<rparr>] \<rparr>"
  have ok: "config_parser (ArgumentParser None None True ''@'') sample_func None = Inr ?p"
    by (rule sample_config)
  have mem: "(''force'', PBool False) \<in>
      set (zip (drop (length (fargs sample_func) - length (fdefaults sample_func))
                  (fargs sample_func)) (fdefaults sample_func))"
    by (simp add: sample_func_def)
  have flag: "argname ''force'' = ''--force''" by (simp add: argname_def)
  from config_parser_converter [OF ok mem]
  have "(\<exists>a\<in>set (actions ?p). option_strings a = [''--force'']) \<and>
     (\<forall>a\<in>set (actions ?p). ''--force'' \<in> set (option_strings a) \<longrightarrow>
        default_value a = PBool False \<and> type_conv a = Some Conv_to_bool)"
    unfolding flag by simp
  then have "\<exists>a\<in>set (actions ?p). option_strings a = [''--force''] \<and>
      default_value a = PBool False \<and> type_conv a = Some Conv_to_bool"
    by fastforce
  with ok show ?thesis by blast
qed

section \<open>Facts about \<open>_getcallargs\<close>\<close>

text \<open>
  C1 fails on the code. For \<open>def sample(path, force=False, n=3)\<close> and the mapping
  \<open>{"path": "x"}\<close>, the optional parameter \<open>force\<close> is absent from the mapping and
  \<open>_getcallargs\<close> raises \<open>No value available for 'force'\<close> instead of appending the
  default \<open>False\<close>: the test \<open>name in optional\<close> compares a name with pairs.
\<close>

theorem getcallargs_absent_optional:
  "getcallargs sample_func [(''path'', PStr ''x'')] =
     Inl (Exn ValueError (''No value available for '' @ quoted ''force''))"
  by (simp add: getcallargs_def sample_func_def)

text \<open>Any parameter absent from the mapping, with a default or without, ends the loop so.\<close>

lemma getcallargs_names_absent:
  "name \<in> set names \<Longrightarrow> name \<noteq> ''self'' \<Longrightarrow> name \<notin> fst ` set kwargs \<Longrightarrow>
   \<exists>n. getcallargs_names optional kwargs names acc =
     Inl (Exn ValueError (''No value available for '' @ quoted n))"
proof (induction names arbitrary: acc)
  case Nil
  then show ?case by simp
next
  case (Cons a names)
  have no: "PStr a \<notin> set (map (\<lambda>(n, d). PTuple [PStr n, d]) optional)" by auto
  show ?case
  proof (cases "a = name")
    case True
    with Cons.prems no show ?thesis by auto
  next
    case False
    with Cons.prems have "name \<in> set names" by simp
    from Cons.IH [OF this Cons.prems(2,3)] no show ?thesis by auto
  qed
qed

section \<open>Facts about \<open>CLITool.execute\<close>\<close>


lemma py_call_test1:
  "py_call test1 [PStr ''A'', PStr ''B'', PStr ''C'', PStr ''D''] [(''E'', PInt 5)] =
     Inr (PTuple [PStr ''A'', PStr ''B'', PTuple [PStr ''C'', PStr ''D''], PDict [(''E'', PInt 5)]])"
  by (simp add: py_call_def test1_def Let_def)




section \<open>Facts about \<open>CLIToolbox.add_command\<close>\<close>

text \<open>
  C5, as amended. \<open>add_command\<close> raises \<open>ValueError\<close> and leaves the toolbox as it was when
  the name contains a space. Any other name is accepted, be it the name of a registered
  command or a name with other white space: the command is appended to the registry and
  the cached parser is cleared, with the description given or, when \<open>parse_doc\<close> is set and
  no description is given, the summary or else the description of the callable's
  documentation; if parsing that documentation raises, the exception leaves
  \<open>add_command\<close> and the toolbox is as it was.
\<close>

theorem add_command_cases:
  "(CHR '' '' \<in> set name \<longrightarrow>
      add_command sep tb f name descr pd =
        (Inl (Exn ValueError (''name cannot contain spaces; got '' @ quoted name)), tb)) \<and>
   (CHR '' '' \<notin> set name \<and> \<not> (pd \<and> \<not> opt_truthy descr) \<longrightarrow>
      add_command sep tb f name descr pd =
        (Inr (), tb\<lparr>tb_parser := None, tb_commands := tb_commands tb @ [(f, name, descr)]\<rparr>)) \<and>
   (CHR '' '' \<notin> set name \<and> pd \<and> \<not> opt_truthy descr \<and> parse_docstr sep (cmd_doc f) = Inr parsed \<longrightarrow>
      add_command sep tb f name descr pd =
        (Inr (), tb\<lparr>tb_parser := None,
                     tb_commands := tb_commands tb @
                       [(f, name, opt_or (summary parsed) (description parsed))]\<rparr>)) \<and>
   (CHR '' '' \<notin> set name \<and> pd \<and> \<not> opt_truthy descr \<and> parse_docstr sep (cmd_doc f) = Inl e \<longrightarrow>
      add_command sep tb f name descr pd = (Inl e, tb))"
  by (simp add: add_command_def)

text \<open>The four cases at concrete commands.\<close>

theorem add_command_cases_witness:
  "add_command [CHR 0x0A] (CLIToolbox_init None) (status_command (PInt 0)) ''add two'' None False =
     (Inl (Exn ValueError (''name cannot contain spaces; got '' @ quoted ''add two'')),
      CLIToolbox_init None) \<and>
   add_command [CHR 0x0A] (CLIToolbox_init None) (status_command (PInt 0)) ''add'' None False =
     (Inr (), \<lparr>tb_description = None, tb_parser = None,
               tb_commands = [(status_command (PInt 0), ''add'', None)]\<rparr>) \<and>
   add_command [CHR 0x0A] (CLIToolbox_init None)
       \<lparr>cmd_doc = Some ''Add two numbers'', cmd_call = (\<lambda>strs. Inr (Ret_other (PInt 0)))\<rparr>
       ''add'' None True =
     (Inr (), \<lparr>tb_description = None, tb_parser = None,
               tb_commands = [(\<lparr>cmd_doc = Some ''Add two numbers'',
                                  cmd_call = (\<lambda>strs. Inr (Ret_other (PInt 0)))\<rparr>,
                               ''add'', Some ''Add two numbers'')]\<rparr>) \<and>
   add_command [CHR 0x0A] (CLIToolbox_init None) (status_command (PInt 0)) ''add'' None True =
     (Inl (Exn AttributeError
             (quoted ''NoneType'' @ '' object has no attribute '' @ quoted ''strip'')),
      CLIToolbox_init None)"
proof -
  let ?tb = "CLIToolbox_init None"
  let ?c = "status_command (PInt 0)"
  let ?d = "\<lparr>cmd_doc = Some ''Add two numbers'', cmd_call = (\<lambda>strs. Inr (Ret_other (PInt 0)))\<rparr>"
  let ?parsed = "\<lparr>summary = Some ''Add two numbers'', description = None, args = None,
      returns = None, yields = None, raises = None\<rparr>"
  have doc: "parse_docstr [CHR 0x0A] (cmd_doc ?d) = Inr ?parsed"
    by (simp add: parse_docstr_def DocInfo_of_def sections_def section_matches_def test_def
        splitlines_def islinebreak_ch_def strip_def lstrip_def rstrip_def isspace_ch_def
        lower_def rstrip_chars_def title_def ch_defs)
  have nodoc: "parse_docstr [CHR 0x0A] (cmd_doc ?c) =
      Inl (Exn AttributeError (quoted ''NoneType'' @ '' object has no attribute '' @ quoted ''strip''))"
    by (simp add: parse_docstr_def status_command_def)
  have 1: "CHR '' '' \<in> set ''add two''" by simp
  have 2: "CHR '' '' \<notin> set ''add'' \<and> \<not> (False \<and> \<not> opt_truthy None)" by simp
  have 3: "CHR '' '' \<notin> set ''add'' \<and> True \<and> \<not> opt_truthy None \<and>
      parse_docstr [CHR 0x0A] (cmd_doc ?d) = Inr ?parsed"
    using doc by (simp add: opt_truthy_def)
  have 4: "CHR '' '' \<notin> set ''add'' \<and> True \<and> \<not> opt_truthy None \<and>
      parse_docstr [CHR 0x0A] (cmd_doc ?c) =
        Inl (Exn AttributeError (quoted ''NoneType'' @ '' object has no attribute '' @ quoted ''strip''))"
    using nodoc by (simp add: opt_truthy_def)
  from add_command_cases [where name = "''add two''" and sep = "[CHR 0x0A]" and tb = ?tb
      and f = ?c and descr = None and pd = False] 1
  have a: "add_command [CHR 0x0A] ?tb ?c ''add two'' None False =
     (Inl (Exn ValueError (''name cannot contain spaces; got '' @ quoted ''add two'')), ?tb)"
    by blast
  from add_command_cases [where name = "''add''" and sep = "[CHR 0x0A]" and tb = ?tb
      and f = ?c and descr = None and pd = False] 2
  have b: "add_command [CHR 0x0A] ?tb ?c ''add'' None False =
     (Inr (), ?tb\<lparr>tb_parser := None, tb_commands := tb_commands ?tb @ [(?c, ''add'', None)]\<rparr>)"
    by blast
  from add_command_cases [where name = "''add''" and sep = "[CHR 0x0A]" and tb = ?tb
      and f = ?d and descr = None and pd = True and parsed = ?parsed] 3
  have c: "add_command [CHR 0x0A] ?tb ?d ''add'' None True =
     (Inr (), ?tb\<lparr>tb_parser := None,
                   tb_commands := tb_commands ?tb @
                     [(?d, ''add'', opt_or (summary ?parsed) (description ?parsed))]\<rparr>)"
    by blast
  from add_command_cases [where name = "''add''" and sep = "[CHR 0x0A]" and tb = ?tb
      and f = ?c and descr = None and pd = True
      and e = "Exn AttributeError (quoted ''NoneType'' @ '' object has no attribute '' @ quoted ''strip'')"] 4
  have d: "add_command [CHR 0x0A] ?tb ?c ''add'' None True =
     (Inl (Exn AttributeError (quoted ''NoneType'' @ '' object has no attribute '' @ quoted ''strip'')), ?tb)"
    by blast
  from a b c d show ?thesis
    by (simp add: CLIToolbox_init_def opt_or_def opt_truthy_def)
qed

text \<open>
  C5 as stated fails: a second command under the name \<open>add\<close> is registered without an
  error, and the registry grows.
\<close>

theorem add_command_accepts_duplicate:
  "add_command [CHR 0x0A]
     \<lparr>tb_description = None, tb_parser = None,
      tb_commands = [(status_command (PInt 0), ''add'', None)]\<rparr>
     (status_command (PInt 1)) ''add'' None False =
   (Inr (), \<lparr>tb_description = None, tb_parser = None,
             tb_commands = [(status_command (PInt 0), ''add'', None),
                            (status_command (PInt 1), ''add'', None)]\<rparr>)"
  by (simp add: add_command_def)

text \<open>A name with a tab is accepted too, and an error never changes the toolbox.\<close>

lemma add_command_accepts_tab:
  "fst (add_command [CHR 0x0A] (CLIToolbox_init None) (status_command (PInt 0))
          (''add'' @ [CHR 0x09] @ ''two'') None False) = Inr ()"
  by (simp add: add_command_def)

lemma add_command_error_keeps_toolbox:
  "fst (add_command sep tb f name descr pd) = Inl e \<Longrightarrow>
   snd (add_command sep tb f name descr pd) = tb"
  by (auto simp add: add_command_def split: if_splits sum.splits)

section \<open>Facts about the command line parser\<close>

text \<open>
  The equation of \<open>parse_loop\<close> rewrites its own right-hand side; it is unfolded one round
  at a time, through the three lemmas that follow.
\<close>

declare parse_loop.simps [simp del]

lemma parse_loop_final:
  "dropWhile (\<lambda>tc. snd tc = Positional) toks = [] \<Longrightarrow>
   parse_loop ext p pos st toks =
     (case consume_positionals ext True pos st (map fst toks) of
        Inl e \<Rightarrow> Inl e
      | Inr (pos', st', n) \<Rightarrow> Inr (st'\<lparr>extras := extras st' @ drop n (map fst toks)\<rparr>))"
  by (subst parse_loop.simps) (simp only: list.case)

lemma parse_loop_option_first:
  "dropWhile (\<lambda>tc. snd tc = Positional) toks = tc # rest \<Longrightarrow>
   takeWhile (\<lambda>tc. snd tc = Positional) toks = [] \<Longrightarrow>
   parse_loop ext p pos st toks =
     (case consume_optional ext p st (fst tc) (snd tc) rest of
        Inl e \<Rightarrow> Inl e
      | Inr (st', m) \<Rightarrow> parse_loop ext p pos st' (drop m rest))"
  by (subst parse_loop.simps) (simp only: list.case not_True_eq_False if_False simp_thms)

lemma parse_loop_run_first:
  "dropWhile (\<lambda>tc. snd tc = Positional) toks = tc # rest \<Longrightarrow>
   takeWhile (\<lambda>tc. snd tc = Positional) toks \<noteq> [] \<Longrightarrow>
   parse_loop ext p pos st toks =
     (case consume_positionals ext False pos st
             (map fst (takeWhile (\<lambda>tc. snd tc = Positional) toks)) of
        Inl e \<Rightarrow> Inl e
      | Inr (pos', st', n) \<Rightarrow>
          if 0 < n then parse_loop ext p pos' st' (drop n toks)
          else
            (case consume_optional ext p
                    (st'\<lparr>extras := extras st' @
                           map fst (takeWhile (\<lambda>tc. snd tc = Positional) toks)\<rparr>)
                    (fst tc) (snd tc) rest of
               Inl e \<Rightarrow> Inl e
             | Inr (st'', m) \<Rightarrow> parse_loop ext p pos' st'' (drop m rest)))"
  by (subst parse_loop.simps) (simp only: list.case if_True simp_thms)

lemma consume_positionals_none_open:
  "consume_positionals ext final [] st run = Inr ([], st, 0)"
  by (simp add: consume_positionals_def)

lemma consume_optional_unknown:
  "consume_optional ext p st tok Unknown_option rest = Inr (st\<lparr>extras := extras st @ [tok]\<rparr>, 0)"
  by (simp add: consume_optional_def)

lemma parse_loop_none_open:
  "\<forall>tc\<in>set toks. snd tc = Positional \<or> snd tc = Unknown_option \<Longrightarrow>
   parse_loop ext p [] st toks = Inr (st\<lparr>extras := extras st @ map fst toks\<rparr>)"
proof (induction toks arbitrary: st rule: length_induct)
  case (1 toks)
  let ?P = "\<lambda>tc. snd tc = Positional"
  show ?case
  proof (cases "dropWhile ?P toks")
    case Nil
    from parse_loop_final [OF Nil] show ?thesis
      by (simp add: consume_positionals_none_open)
  next
    case (Cons tc rest)
    have split: "toks = takeWhile ?P toks @ tc # rest"
      using Cons takeWhile_dropWhile_id [of ?P toks] by simp
    have "tc \<in> set toks" by (subst split) simp
    moreover have "\<not> ?P (hd (dropWhile ?P toks))"
      by (rule hd_dropWhile) (simp only: Cons list.distinct not_False_eq_True)
    then have "\<not> ?P tc" unfolding Cons by simp
    ultimately have tc: "snd tc = Unknown_option" using "1.prems" by blast
    have len: "length rest < length toks"
      using Cons by (rule dropWhile_Cons_length)
    have "set rest \<subseteq> set toks" by (subst split) auto
    with "1.prems" have rest: "\<forall>tc\<in>set rest. snd tc = Positional \<or> snd tc = Unknown_option"
      by blast
    have ih: "\<And>st'. parse_loop ext p [] st' rest = Inr (st'\<lparr>extras := extras st' @ map fst rest\<rparr>)"
      using "1.IH" len rest by blast
    have m: "map fst toks = map fst (takeWhile ?P toks) @ fst tc # map fst rest"
      by (subst split) simp
    show ?thesis
    proof (cases "takeWhile ?P toks = []")
      case True
      from parse_loop_option_first [OF Cons True] tc ih m True show ?thesis
        by (simp add: consume_optional_unknown)
    next
      case False
      from parse_loop_run_first [OF Cons False] tc ih m show ?thesis
        by (simp add: consume_positionals_none_open consume_optional_unknown)
    qed
  qed
qed


section \<open>Facts about \<open>CLIToolbox\<close>\<close>

lemma CLIToolbox_parser_fresh:
  "tb_parser tb = None \<Longrightarrow>
   CLIToolbox_parser tb =
     (Inr (subcommand_parser (tb_description tb) (names_of tb)),
      tb\<lparr>tb_parser := Some (subcommand_parser (tb_description tb) (names_of tb))\<rparr>)"
  by (simp add: CLIToolbox_parser_def add_argument_def ArgumentParser_def
      subcommand_parser_def subcommand_action_def names_of_def)

lemma CLIToolbox_parser_current:
  "cache_current tb \<Longrightarrow>
   CLIToolbox_parser tb =
     (Inr (subcommand_parser (tb_description tb) (names_of tb)),
      tb\<lparr>tb_parser := Some (subcommand_parser (tb_description tb) (names_of tb))\<rparr>)"
proof (cases "tb_parser tb")
  case None
  then show ?thesis by (rule CLIToolbox_parser_fresh)
next
  case (Some p)
  assume "cache_current tb"
  with Some have p: "p = subcommand_parser (tb_description tb) (names_of tb)"
    by (simp add: cache_current_def)
  have "tb\<lparr>tb_parser := Some p\<rparr> = tb" using Some by simp
  with Some p show ?thesis by (simp add: CLIToolbox_parser_def)
qed

lemma option_index_subcommand: "option_index (subcommand_parser d cs) s = None"
  by (simp add: option_index_def subcommand_parser_def subcommand_action_def)

lemma abbreviates_subcommand: "\<not> abbreviates (subcommand_parser d cs) s"
  by (simp add: abbreviates_def subcommand_parser_def subcommand_action_def)

lemma parse_optional_subcommand:
  "parse_optional (subcommand_parser d cs) s = Positional \<or>
   parse_optional (subcommand_parser d cs) s = Unknown_option"
  by (simp add: parse_optional_def option_index_subcommand abbreviates_subcommand)

lemma parse_optional_subcommand_word:
  "s \<noteq> [] \<Longrightarrow> hd s \<noteq> CHR ''-'' \<Longrightarrow> parse_optional (subcommand_parser d cs) s = Positional"
  by (simp add: parse_optional_def)

lemma consume_subcommand:
  "consume_positionals ext final [(i, subcommand_action cs)] st (name # run) =
     (if name \<in> set cs
      then Inr ([], st\<lparr>namespace := od_set (namespace st) ''subcommand'' (PStr name),
                        seen := seen st @ [i]\<rparr>, 1)
      else Inl usage_error)"
  by (auto simp add: consume_positionals_def take_action_def get_values_def get_value_def
      check_value_def subcommand_action_def Let_def)

lemma parse_known_args_subcommand:
  assumes name: "name \<noteq> []" "hd name \<noteq> CHR ''-''" "plain name"
    and extra: "\<forall>s\<in>set extra. plain s"
  shows "parse_known_args ext (subcommand_parser d cs) (name # extra) =
     (if name \<in> set cs then Inr ([(''subcommand'', PStr name)], extra) else Inl usage_error)"
proof -
  let ?p = "subcommand_parser d cs"
  let ?P = "\<lambda>tc. snd tc = Positional"
  let ?T = "map (\<lambda>s. (s, parse_optional ?p s)) extra"
  let ?toks = "(name, Positional) # ?T"
  let ?st0 = "\<lparr>namespace = [(''subcommand'', PNone)], seen = [], extras = []\<rparr>"
  let ?st1 = "\<lparr>namespace = [(''subcommand'', PStr name)], seen = [0], extras = []\<rparr>"
  let ?st2 = "\<lparr>namespace = [(''subcommand'', PStr name)], seen = [0], extras = extra\<rparr>"
  have files: "\<not> ((\<exists>s\<in>set (name # extra). s \<noteq> [] \<and> hd s \<in> set (fromfile_prefix_chars ?p))
      \<or> ''--'' \<in> set (name # extra))"
    using name extra by (auto simp add: plain_def subcommand_parser_def)
  have inside: "\<not> (\<exists>s\<in>set (name # extra). parse_optional ?p s = Outside)"
    using parse_optional_subcommand [of d cs] by (metis token_class.distinct(5,11))
  have toks: "map (\<lambda>s. (s, parse_optional ?p s)) (name # extra) = ?toks"
    using name by (simp add: parse_optional_subcommand_word)
  have pos: "filter (\<lambda>ia. option_strings (snd ia) = []) (List.enumerate 0 (actions ?p)) =
      [(0, subcommand_action cs)]"
    by (simp add: subcommand_parser_def subcommand_action_def)
  have ns: "initial_namespace ?p = [(''subcommand'', PNone)]"
    by (simp add: initial_namespace_def subcommand_parser_def subcommand_action_def)
  have T: "\<forall>tc\<in>set ?T. snd tc = Positional \<or> snd tc = Unknown_option"
    using parse_optional_subcommand [of d cs] by auto
  have fstT: "map fst ?T = extra"
    "map (fst \<circ> (\<lambda>s. (s, parse_optional ?p s))) extra = extra"
    by (simp_all add: comp_def)
  have loop: "parse_loop ext ?p [(0, subcommand_action cs)] ?st0 ?toks =
      (if name \<in> set cs then Inr ?st2 else Inl usage_error)"
  proof (cases "dropWhile ?P ?toks")
    case Nil
    from parse_loop_final [OF Nil, of ext ?p "[(0, subcommand_action cs)]" ?st0]
    show ?thesis by (simp add: consume_subcommand fstT)
  next
    case (Cons tc rest)
    have run: "takeWhile ?P ?toks \<noteq> []" by simp
    have hd_run: "map fst (takeWhile ?P ?toks) = name # map fst (takeWhile ?P ?T)" by simp
    from parse_loop_run_first [OF Cons run, of ext ?p "[(0, subcommand_action cs)]" ?st0]
    have "parse_loop ext ?p [(0, subcommand_action cs)] ?st0 ?toks =
        (if name \<in> set cs then parse_loop ext ?p [] ?st1 ?T else Inl usage_error)"
      unfolding hd_run consume_subcommand by simp
    with parse_loop_none_open [OF T, of ext ?p ?st1] fstT show ?thesis by simp
  qed
  have fin: "finish_actions ext ?st2 False (List.enumerate 0 (actions ?p)) = Inr ?st2"
    by (simp add: subcommand_parser_def)
  show ?thesis
    unfolding parse_known_args_def
    using files inside
    by (simp only: if_False toks pos ns loop) (simp add: fin)
qed


lemma find_first_named:
  "name \<notin> set (map (\<lambda>item. fst (snd item)) pre) \<Longrightarrow>
   find (\<lambda>item. fst (snd item) = name) (pre @ (f, name, d) # post) = Some (f, name, d)"
  by (induction pre) auto

lemma CLIToolbox_call_state:
  assumes "cache_current tb"
  shows "snd (CLIToolbox_call ext tb strs) =
     tb\<lparr>tb_parser := Some (subcommand_parser (tb_description tb) (names_of tb))\<rparr>"
proof -
  let ?p = "subcommand_parser (tb_description tb) (names_of tb)"
  let ?tb = "tb\<lparr>tb_parser := Some ?p\<rparr>"
  note unfold = CLIToolbox_call_def CLIToolbox_parser_current [OF assms]
  show ?thesis
  proof (cases "parse_known_args ext ?p strs")
    case (Inl e)
    then show ?thesis by (simp add: unfold)
  next
    case (Inr ns)
    obtain this extra where ns: "ns = (this, extra)" by (cases ns)
    show ?thesis
    proof (cases "truthy (the (map_of this ''subcommand''))")
      case False
      with Inr ns show ?thesis by (simp add: unfold)
    next
      case True
      show ?thesis
      proof (cases "find (\<lambda>item. PStr (fst (snd item)) = the (map_of this ''subcommand''))
                      (tb_commands tb)")
        case None
        with Inr ns True show ?thesis by (simp add: unfold)
      next
        case (Some item)
        show ?thesis
        proof (cases "cmd_call (fst item) (if extra \<noteq> [] then extra else [''-h''])")
          case (Inl e)
          with Inr ns True Some show ?thesis by (simp add: unfold)
        next
          case r: (Inr r)
          with Inr ns True Some show ?thesis by (cases r) (simp_all add: unfold)
        qed
      qed
    qed
  qed
qed

lemma toolbox_dispatch:
  assumes inv: "cache_current tb"
    and reg: "tb_commands tb = pre @ (f, name, d) # post"
      "name \<notin> set (map (\<lambda>item. fst (snd item)) pre)"
    and name: "name \<noteq> []" "hd name \<noteq> CHR ''-''" "plain name"
    and extra: "\<forall>s\<in>set extra. plain s"
  shows "fst (CLIToolbox_call ext tb (name # extra)) =
     as_Result (cmd_call f (if extra \<noteq> [] then extra else [''-h'']))"
proof -
  let ?p = "subcommand_parser (tb_description tb) (names_of tb)"
  let ?tb = "tb\<lparr>tb_parser := Some ?p\<rparr>"
  have mem: "name \<in> set (names_of tb)"
    using reg(1) by (simp add: names_of_def)
  have parse: "parse_known_args ext ?p (name # extra) = Inr ([(''subcommand'', PStr name)], extra)"
    using parse_known_args_subcommand [OF name extra] mem by simp
  have found: "find (\<lambda>item. fst (snd item) = name) (tb_commands tb) = Some (f, name, d)"
    using find_first_named [OF reg(2)] reg(1) by simp
  let ?strs = "if extra \<noteq> [] then extra else [''-h'']"
  have call: "CLIToolbox_call ext tb (name # extra) =
      (case cmd_call f ?strs of
         Inl e \<Rightarrow> (Inl e, ?tb)
       | Inr (Ret_Result r) \<Rightarrow> (Inr r, ?tb)
       | Inr (Ret_other v) \<Rightarrow> (Inr \<lparr>status = v, output' = PNone, error = None\<rparr>, ?tb))"
    using name(1)
    by (simp add: CLIToolbox_call_def CLIToolbox_parser_current [OF inv] parse found)
  show ?thesis
  proof (cases "cmd_call f ?strs")
    case (Inl e)
    with call show ?thesis by (simp add: as_Result_def)
  next
    case (Inr r)
    with call show ?thesis by (cases r) (simp_all add: as_Result_def)
  qed
qed

lemma cache_current_init: "cache_current (CLIToolbox_init descr)"
  by (simp add: cache_current_def CLIToolbox_init_def)

lemma cache_current_add_command:
  "cache_current tb \<Longrightarrow> cache_current (snd (add_command sep tb f name descr pd))"
  by (auto simp add: add_command_def cache_current_def split: sum.splits)

lemma cache_current_call:
  "cache_current tb \<Longrightarrow> cache_current (snd (CLIToolbox_call ext tb strs))"
  by (simp add: CLIToolbox_call_state) (simp add: cache_current_def names_of_def)

lemma cache_current_foldl:
  "cache_current tb \<Longrightarrow> cache_current (foldl (apply_op sep ext) tb ops)"
proof (induction ops arbitrary: tb)
  case Nil
  then show ?case by simp
next
  case (Cons op ops)
  have "cache_current (apply_op sep ext tb op)"
    using Cons.prems by (cases op) (simp_all add: cache_current_add_command cache_current_call)
  then show ?case using Cons.IH by simp
qed

lemma cache_current_after: "cache_current (toolbox_after sep ext descr ops)"
  by (simp add: toolbox_after_def cache_current_foldl cache_current_init)

lemma toolbox_after_snoc:
  "toolbox_after sep ext descr (ops @ [op]) = apply_op sep ext (toolbox_after sep ext descr ops) op"
  by (simp add: toolbox_after_def)



text \<open>
  C10. A successful \<open>add_command\<close> clears the cached parser. In a toolbox reached by any
  sequence of registrations and invocations, the parser that the property \<open>parser\<close>
  returns, cached or rebuilt, has one argument, whose choices are the names of the
  commands registered at that moment. In particular a command registered under a new
  name after an invocation is dispatched to by the next invocation with that name.
\<close>

theorem cached_parser_follows_registry:
  "(fst (add_command sep tb0 f0 n0 d0 pd0) = Inr () \<longrightarrow>
      tb_parser (snd (add_command sep tb0 f0 n0 d0 pd0)) = None) \<and>
   (\<exists>p. fst (CLIToolbox_parser (toolbox_after sep ext descr ops)) = Inr p \<and>
        map choices (actions p) = [Some (names_of (toolbox_after sep ext descr ops))]) \<and>
   (n \<notin> set (names_of (toolbox_after sep ext descr ops)) \<and> CHR '' '' \<notin> set n \<and>
    n \<noteq> [] \<and> hd n \<noteq> CHR ''-'' \<and> plain n \<and> (\<forall>s\<in>set extra. plain s) \<longrightarrow>
      fst (CLIToolbox_call ext
             (toolbox_after sep ext descr (ops @ [Invoke strs, Add_command f n d False]))
             (n # extra)) =
        as_Result (cmd_call f (if extra \<noteq> [] then extra else [''-h''])))"
proof (intro conjI impI)
  assume "fst (add_command sep tb0 f0 n0 d0 pd0) = Inr ()"
  then show "tb_parser (snd (add_command sep tb0 f0 n0 d0 pd0)) = None"
    by (auto simp add: add_command_def split: if_splits sum.splits)
next
  let ?tb = "toolbox_after sep ext descr ops"
  have "fst (CLIToolbox_parser ?tb) = Inr (subcommand_parser (tb_description ?tb) (names_of ?tb))"
    by (simp add: CLIToolbox_parser_current [OF cache_current_after])
  moreover have "map choices (actions (subcommand_parser (tb_description ?tb) (names_of ?tb))) =
      [Some (names_of ?tb)]"
    by (simp add: subcommand_parser_def subcommand_action_def)
  ultimately show "\<exists>p. fst (CLIToolbox_parser ?tb) = Inr p \<and>
      map choices (actions p) = [Some (names_of ?tb)]"
    by (intro exI [of _ "subcommand_parser (tb_description ?tb) (names_of ?tb)"] conjI)
next
  let ?tb = "toolbox_after sep ext descr ops"
  let ?tb1 = "toolbox_after sep ext descr (ops @ [Invoke strs])"
  let ?tb2 = "toolbox_after sep ext descr (ops @ [Invoke strs, Add_command f n d False])"
  assume a: "n \<notin> set (names_of ?tb) \<and> CHR '' '' \<notin> set n \<and> n \<noteq> [] \<and> hd n \<noteq> CHR ''-'' \<and>
      plain n \<and> (\<forall>s\<in>set extra. plain s)"
  have c1: "tb_commands ?tb1 = tb_commands ?tb"
    by (simp add: toolbox_after_snoc CLIToolbox_call_state [OF cache_current_after])
  have e2: "?tb2 = snd (add_command sep ?tb1 f n d False)"
    by (simp add: toolbox_after_def)
  have "tb_commands (snd (add_command sep ?tb1 f n d False)) = tb_commands ?tb @ (f, n, d) # []"
    using a c1 by (simp add: add_command_def)
  then have c2: "tb_commands ?tb2 = tb_commands ?tb @ (f, n, d) # []"
    by (simp only: e2)
  have fresh: "n \<notin> set (map (\<lambda>item. fst (snd item)) (tb_commands ?tb))"
    using a by (simp add: names_of_def)
  from a have n: "n \<noteq> []" "hd n \<noteq> CHR ''-''" "plain n" and extra: "\<forall>s\<in>set extra. plain s"
    by simp_all
  from toolbox_dispatch [OF cache_current_after c2 fresh n extra]
  show "fst (CLIToolbox_call ext ?tb2 (n # extra)) =
        as_Result (cmd_call f (if extra \<noteq> [] then extra else [''-h'']))" .
qed

text \<open>\<open>subtract\<close> is registered after \<open>add\<close> has been invoked, and answers with its status 7.\<close>

theorem cached_parser_follows_registry_witness:
  "tb_parser (snd (add_command [CHR 0x0A] (CLIToolbox_init None) (status_command (PInt 0))
                     ''add'' None False)) = None \<and>
   fst (CLIToolbox_call sample_externals
          (toolbox_after [CHR 0x0A] sample_externals None
             ([Add_command (status_command (PInt 0)) ''add'' None False]
              @ [Invoke [''add'', ''10'', ''20''],
                 Add_command (status_command (PInt 7)) ''subtract'' None False]))
          [''subtract'', ''20'', ''1'']) =
     Inr \<lparr>status = PInt 7, output' = PNone, error = None\<rparr>"
proof -
  let ?ops = "[Add_command (status_command (PInt 0)) ''add'' None False]"
  have 1: "fst (add_command [CHR 0x0A] (CLIToolbox_init None) (status_command (PInt 0))
                  ''add'' None False) = Inr ()"
    by (simp add: add_command_def)
  have 2: "''subtract'' \<notin> set (names_of (toolbox_after [CHR 0x0A] sample_externals None ?ops)) \<and>
      CHR '' '' \<notin> set ''subtract'' \<and> ''subtract'' \<noteq> [] \<and> hd ''subtract'' \<noteq> CHR ''-'' \<and>
      plain ''subtract'' \<and> (\<forall>s\<in>set [''20'', ''1'']. plain s)"
    by (simp add: toolbox_after_def add_command_def CLIToolbox_init_def names_of_def plain_def)
  from cached_parser_follows_registry [where sep = "[CHR 0x0A]" and ?tb0.0 = "CLIToolbox_init None"
      and ?f0.0 = "status_command (PInt 0)" and ?n0.0 = "''add''" and ?d0.0 = None
      and ?pd0.0 = False and ext = sample_externals and descr = None and ops = ?ops
      and n = "''subtract''" and extra = "[''20'', ''1'']" and strs = "[''add'', ''10'', ''20'']"
      and f = "status_command (PInt 7)" and d = None] 1 2
  show ?thesis by (simp add: as_Result_def status_command_def)
qed

section \<open>Facts about \<open>CLITool.__call__\<close>\<close>

text \<open>
  The tool of the test suite, \<open>CLITool(_test1, parse_doc=False)\<close>, step by step: the
  documentation of \<open>config_logging\<close> under either line separator, the parser built, the
  command line parsed, the two reconstructed calls.
\<close>

lemma config_logging_doc_lf:
  "parse_docstr [CHR 0x0A] (fdoc config_logging) =
       Inr \<lparr>summary = Some ''Configure logging to emit messages to the console and optional log files.'',
            description = Some [],
            args = Some (''logfile: log file name; file is opened in append mode.'' @ [CHR 0x0A]
              @ ''logwrite: log file name; file is opened in write mode.'' @ [CHR 0x0A]
              @ ''loglevel: logging level; default is 20 (logging.INFO).''),
            returns = None, yields = None, raises = None\<rparr>"
  by code_simp

lemma config_logging_doc_crlf:
  "parse_docstr [CHR 0x0D, CHR 0x0A] (fdoc config_logging) =
       Inr \<lparr>summary = Some ''Configure logging to emit messages to the console and optional log files.'',
            description = Some [],
            args = Some (''logfile: log file name; file is opened in append mode.'' @ [CHR 0x0D, CHR 0x0A]
              @ ''logwrite: log file name; file is opened in write mode.'' @ [CHR 0x0D, CHR 0x0A]
              @ ''loglevel: logging level; default is 20 (logging.INFO).''),
            returns = None, yields = None, raises = None\<rparr>"
  by code_simp

lemma config_logging_docargs_lf:
  "parse_docargs (''logfile: log file name; file is opened in append mode.'' @ [CHR 0x0A]
              @ ''logwrite: log file name; file is opened in write mode.'' @ [CHR 0x0A]
              @ ''loglevel: logging level; default is 20 (logging.INFO).'') =
       Inr [(''logfile'', ''log file name; file is opened in append mode.''),
            (''logwrite'', ''log file name; file is opened in write mode.''),
            (''loglevel'', ''logging level; default is 20 (logging.INFO).'')]"
  by code_simp

lemma config_logging_docargs_crlf:
  "parse_docargs (''logfile: log file name; file is opened in append mode.'' @ [CHR 0x0D, CHR 0x0A]
              @ ''logwrite: log file name; file is opened in write mode.'' @ [CHR 0x0D, CHR 0x0A]
              @ ''loglevel: logging level; default is 20 (logging.INFO).'') =
       Inr [(''logfile'', ''log file name; file is opened in append mode.''),
            (''logwrite'', ''log file name; file is opened in write mode.''),
            (''loglevel'', ''logging level; default is 20 (logging.INFO).'')]"
  by code_simp


lemma config_parser_test1:
  "config_parser (ArgumentParser None None True ''@'') test1 None =
     Inr \<lparr> p_description = None, p_epilog = None, fromfile_prefix_chars = ''@'',
       actions =
         [help_action,
          \<lparr> option_strings = [], dest = Some ''param1'', nargs = Nargs_None,
            default_value = PNone, type_conv = None, choices = None, help_text = None,
            required = True, is_help = False \<rparr>,
          \<lparr> option_strings = [], dest = Some ''param2'', nargs = Nargs_None,
            default_value = PNone, type_conv = None, choices = None, help_text = None,
            required = True, is_help = False \<rparr>,
          \<lparr> option_strings = [], dest = Some ''args'', nargs = Nargs_ZeroOrMore,
            default_value = PNone, type_conv = None, choices = None, help_text = None,
            required = True, is_help = False \<rparr>,
          \<lparr> option_strings = [''--kwargs''], dest = Some ''kwargs'', nargs = Nargs_None,
            default_value = PNone, type_conv = Some Conv_json_loads, choices = None,
            help_text = None, required = False, is_help = False \<rparr>] \<rparr>"
  by code_simp

lemma config_parser_logging:
  "config_parser
     \<lparr> p_description = None, p_epilog = None, fromfile_prefix_chars = ''@'',
       actions =
         [help_action,
          \<lparr> option_strings = [], dest = Some ''param1'', nargs = Nargs_None,
            default_value = PNone, type_conv = None, choices = None, help_text = None,
            required = True, is_help = False \<rparr>,
          \<lparr> option_strings = [], dest = Some ''param2'', nargs = Nargs_None,
            default_value = PNone, type_conv = None, choices = None, help_text = None,
            required = True, is_help = False \<rparr>,
          \<lparr> option_strings = [], dest = Some ''args'', nargs = Nargs_ZeroOrMore,
            default_value = PNone, type_conv = None, choices = None, help_text = None,
            required = True, is_help = False \<rparr>,
          \<lparr> option_strings = [''--kwargs''], dest = Some ''kwargs'', nargs = Nargs_None,
            default_value = PNone, type_conv = Some Conv_json_loads, choices = None,
            help_text = None, required = False, is_help = False \<rparr>] \<rparr>
     config_logging
     (Some [(''logfile'', ''log file name; file is opened in append mode.''),
            (''logwrite'', ''log file name; file is opened in write mode.''),
            (''loglevel'', ''logging level; default is 20 (logging.INFO).'')]) =
   Inr test1_parser"
  by code_simp

lemma build_parser_test1:
  assumes "os_linesep env = [CHR 0x0A] \<or> os_linesep env = [CHR 0x0D, CHR 0x0A]"
  shows "build_parser env (CLITool_init test1 None None None False None) = Inr test1_parser"
  using assms
proof
  assume "os_linesep env = [CHR 0x0A]"
  then show ?thesis
    by (simp add: build_parser_def CLITool_init_def opt_or_def opt_truthy_def
        config_parser_test1 config_logging_doc_lf config_logging_docargs_lf
        config_parser_logging del: append.simps)
next
  assume "os_linesep env = [CHR 0x0D, CHR 0x0A]"
  then show ?thesis
    by (simp add: build_parser_def CLITool_init_def opt_or_def opt_truthy_def
        config_parser_test1 config_logging_doc_crlf config_logging_docargs_crlf
        config_parser_logging del: append.simps)
qed


lemma classify_test1:
  "map (\<lambda>s. (s, parse_optional test1_parser s)) [''A'', ''B'', ''C'', ''D'', ''--kwargs={\"E\": 5}''] =
     [(''A'', Positional), (''B'', Positional), (''C'', Positional), (''D'', Positional),
      (''--kwargs={\"E\": 5}'', Option 4 ''--kwargs'' (Some ''{\"E\": 5}''))]"
  by code_simp

lemma parse_args_test1:
  assumes j: "json_loads ext ''{\"E\": 5}'' = Inr (PDict [(''E'', PInt 5)])"
  shows "parse_args ext test1_parser [''A'', ''B'', ''C'', ''D'', ''--kwargs={\"E\": 5}''] =
     Inr [(''param1'', PStr ''A''), (''param2'', PStr ''B''),
          (''args'', PList [PStr ''C'', PStr ''D'']), (''kwargs'', PDict [(''E'', PInt 5)]),
          (''logfile'', PNone), (''logwrite'', PNone), (''loglevel'', PInt 20)]"
proof -
  let ?strs = "[''A'', ''B'', ''C'', ''D'', ''--kwargs={\"E\": 5}'']"
  let ?P = "\<lambda>tc. snd tc = Positional"
  let ?opt = "(''--kwargs={\"E\": 5}'', Option 4 ''--kwargs'' (Some ''{\"E\": 5}''))"
  let ?toks = "[(''A'', Positional), (''B'', Positional), (''C'', Positional), (''D'', Positional), ?opt]"
  let ?pos = "filter (\<lambda>ia. option_strings (snd ia) = []) (List.enumerate 0 (actions test1_parser))"
  let ?st0 = "\<lparr>namespace = initial_namespace test1_parser, seen = [], extras = []\<rparr>"
  let ?ns1 = "[(''param1'', PStr ''A''), (''param2'', PStr ''B''),
          (''args'', PList [PStr ''C'', PStr ''D'']), (''kwargs'', PNone),
          (''logfile'', PNone), (''logwrite'', PNone), (''loglevel'', PInt 20)]"
  let ?st1 = "\<lparr>namespace = ?ns1, seen = [Suc 0, 2, 3], extras = []\<rparr>"
  let ?ns2 = "[(''param1'', PStr ''A''), (''param2'', PStr ''B''),
          (''args'', PList [PStr ''C'', PStr ''D'']), (''kwargs'', PDict [(''E'', PInt 5)]),
          (''logfile'', PNone), (''logwrite'', PNone), (''loglevel'', PInt 20)]"
  let ?st2 = "\<lparr>namespace = ?ns2, seen = [Suc 0, 2, 3, 4], extras = []\<rparr>"
  have files: "\<not> ((\<exists>s\<in>set ?strs. s \<noteq> [] \<and> hd s \<in> set (fromfile_prefix_chars test1_parser))
      \<or> ''--'' \<in> set ?strs)"
    by (simp add: test1_parser_def)
  have inside: "\<not> (\<exists>s\<in>set ?strs. parse_optional test1_parser s = Outside)"
  proof -
    have "\<forall>tc\<in>set (map (\<lambda>s. (s, parse_optional test1_parser s)) ?strs). snd tc \<noteq> Outside"
      unfolding classify_test1 by simp
    then show ?thesis by simp
  qed
  have positionals: "consume_positionals ext False ?pos ?st0 [''A'', ''B'', ''C'', ''D''] =
      Inr ([], ?st1, 4)"
    by (simp add: consume_positionals_def take_action_def get_values_def get_value_def
        check_value_def initial_namespace_def test1_parser_def help_action_def Let_def)
  have d1: "dropWhile ?P ?toks = [?opt]" by simp
  have t1: "takeWhile ?P ?toks \<noteq> []" by simp
  have run: "map fst (takeWhile ?P ?toks) = [''A'', ''B'', ''C'', ''D'']" by simp
  have step1: "parse_loop ext test1_parser ?pos ?st0 ?toks =
      parse_loop ext test1_parser [] ?st1 [?opt]"
    by (simp only: parse_loop_run_first [OF d1 t1] run positionals) simp
  have option: "consume_optional ext test1_parser ?st1 ''--kwargs={\"E\": 5}''
      (Option 4 ''--kwargs'' (Some ''{\"E\": 5}'')) [] = Inr (?st2, 0)"
    by (simp add: consume_optional_def take_action_def get_values_def get_value_def
        check_value_def convert_def j test1_parser_def help_action_def Let_def)
  have d2: "dropWhile ?P [?opt] = [?opt]" by simp
  have t2: "takeWhile ?P [?opt] = []" by simp
  have d3: "dropWhile ?P [] = []" by simp
  have step2: "parse_loop ext test1_parser [] ?st1 [?opt] = Inr ?st2"
    by (simp only: parse_loop_option_first [OF d2 t2] fst_conv snd_conv option)
      (simp add: parse_loop_final [OF d3] consume_positionals_def)
  have fin: "finish_actions ext ?st2 False (List.enumerate 0 (actions test1_parser)) = Inr ?st2"
    by (simp add: test1_parser_def help_action_def)
  have loop: "parse_loop ext test1_parser ?pos ?st0
      (map (\<lambda>s. (s, parse_optional test1_parser s)) ?strs) = Inr ?st2"
    unfolding classify_test1 by (simp only: step1 step2)
  show ?thesis
    unfolding parse_args_def parse_known_args_def
    using files inside
    by (simp only: if_False loop) (simp add: fin)
qed


lemma getcallargs_logging_test1:
  "getcallargs config_logging
     [(''param1'', PStr ''A''), (''param2'', PStr ''B''),
      (''args'', PList [PStr ''C'', PStr ''D'']), (''kwargs'', PDict [(''E'', PInt 5)]),
      (''logfile'', PNone), (''logwrite'', PNone), (''loglevel'', PInt 20)] =
   Inr ([PNone, PNone, PInt 20], [])"
  by code_simp

lemma getcallargs_test1:
  "getcallargs test1
     [(''param1'', PStr ''A''), (''param2'', PStr ''B''),
      (''args'', PList [PStr ''C'', PStr ''D'']), (''kwargs'', PDict [(''E'', PInt 5)]),
      (''logfile'', PNone), (''logwrite'', PNone), (''loglevel'', PInt 20)] =
   Inr ([PStr ''A'', PStr ''B'', PStr ''C'', PStr ''D''], [(''E'', PInt 5)])"
  by code_simp

lemma py_call_config_logging:
  "py_call config_logging [PNone, PNone, PInt 20] [] = Inr PNone"
  by code_simp

text \<open>
  C2. With the line separator of POSIX or of Windows and a \<open>json.loads\<close> that reads
  \<open>{"E": 5}\<close> as the dictionary with \<open>E\<close> at 5, the tool for \<open>_test1\<close> invoked with
  \<open>A B C D --kwargs={"E": 5}\<close> parses the command line, reconstructs the call
  \<open>func("A", "B", "C", "D", E=5)\<close> and returns
  \<open>Result(status=0, output=("A", "B", ("C", "D"), {"E": 5}), error=None)\<close>.
\<close>

theorem test1_round_trip:
  assumes sep: "os_linesep env = [CHR 0x0A] \<or> os_linesep env = [CHR 0x0D, CHR 0x0A]"
    and j: "json_loads (converters env) ''{\"E\": 5}'' = Inr (PDict [(''E'', PInt 5)])"
  shows "(\<exists>p params.
        fst (CLITool_parser env (CLITool_init test1 None None None False None)) = Inr p \<and>
        parse_args (converters env) p [''A'', ''B'', ''C'', ''D'', ''--kwargs={\"E\": 5}''] =
          Inr params \<and>
        getcallargs test1 params =
          Inr ([PStr ''A'', PStr ''B'', PStr ''C'', PStr ''D''], [(''E'', PInt 5)])) \<and>
     fst (fst (CLITool_call env (CLITool_init test1 None None None False None)
                 [''A'', ''B'', ''C'', ''D'', ''--kwargs={\"E\": 5}''])) =
       Inr \<lparr>status = PInt 0,
            output' = PTuple [PStr ''A'', PStr ''B'', PTuple [PStr ''C'', PStr ''D''],
                              PDict [(''E'', PInt 5)]],
            error = None\<rparr>"
proof
  let ?tool = "CLITool_init test1 None None None False None"
  let ?strs = "[''A'', ''B'', ''C'', ''D'', ''--kwargs={\"E\": 5}'']"
  let ?params = "[(''param1'', PStr ''A''), (''param2'', PStr ''B''),
      (''args'', PList [PStr ''C'', PStr ''D'']), (''kwargs'', PDict [(''E'', PInt 5)]),
      (''logfile'', PNone), (''logwrite'', PNone), (''loglevel'', PInt 20)]"
  have cached: "tool_parser ?tool = None" by (simp add: CLITool_init_def)
  have parser: "CLITool_parser env ?tool = (Inr test1_parser, ?tool\<lparr>tool_parser := Some test1_parser\<rparr>)"
    by (simp add: CLITool_parser_def cached build_parser_test1 [OF sep])
  have parsed: "parse_args (converters env) test1_parser ?strs = Inr ?params"
    by (rule parse_args_test1 [OF j])
  show "\<exists>p params. fst (CLITool_parser env ?tool) = Inr p \<and>
      parse_args (converters env) p ?strs = Inr params \<and>
      getcallargs test1 params =
        Inr ([PStr ''A'', PStr ''B'', PStr ''C'', PStr ''D''], [(''E'', PInt 5)])"
    using parser parsed getcallargs_test1 by (intro exI [of _ test1_parser] exI [of _ ?params]) simp
  have fields: "func (?tool\<lparr>tool_parser := Some test1_parser\<rparr>) = test1"
    "logmngr (?tool\<lparr>tool_parser := Some test1_parser\<rparr>) = config_logging"
    by (simp_all add: CLITool_init_def)
  have run: "fst (execute env (?tool\<lparr>tool_parser := Some test1_parser\<rparr>)
                [PStr ''A'', PStr ''B'', PStr ''C'', PStr ''D''] [(''E'', PInt 5)]) =
      Inr \<lparr>status = PInt 0,
           output' = PTuple [PStr ''A'', PStr ''B'', PTuple [PStr ''C'', PStr ''D''],
                             PDict [(''E'', PInt 5)]],
           error = None\<rparr>"
    by (simp add: execute_def fields py_call_test1 Let_def)
  have call: "CLITool_call env ?tool ?strs =
      (execute env (?tool\<lparr>tool_parser := Some test1_parser\<rparr>)
         [PStr ''A'', PStr ''B'', PStr ''C'', PStr ''D''] [(''E'', PInt 5)],
       ?tool\<lparr>tool_parser := Some test1_parser\<rparr>)"
    unfolding CLITool_call_def parser
    by (simp only: prod.case sum.case list.distinct if_True not_False_eq_True parsed fields
        getcallargs_logging_test1 getcallargs_test1 py_call_config_logging) simp
  show "fst (fst (CLITool_call env ?tool ?strs)) =
      Inr \<lparr>status = PInt 0,
           output' = PTuple [PStr ''A'', PStr ''B'', PTuple [PStr ''C'', PStr ''D''],
                             PDict [(''E'', PInt 5)]],
           error = None\<rparr>"
    by (simp only: call fst_conv run)
qed

text \<open>The theorem in the sample surroundings.\<close>

theorem test1_round_trip_witness:
  "fst (fst (CLITool_call sample_env (CLITool_init test1 None None None False None)
               [''A'', ''B'', ''C'', ''D'', ''--kwargs={\"E\": 5}''])) =
     Inr \<lparr>status = PInt 0,
          output' = PTuple [PStr ''A'', PStr ''B'', PTuple [PStr ''C'', PStr ''D''],
                            PDict [(''E'', PInt 5)]],
          error = None\<rparr>"
proof -
  have sep: "os_linesep sample_env = [CHR 0x0A] \<or> os_linesep sample_env = [CHR 0x0D, CHR 0x0A]"
    by (simp add: sample_env_def)
  have j: "json_loads (converters sample_env) ''{\"E\": 5}'' = Inr (PDict [(''E'', PInt 5)])"
    by (simp add: sample_env_def sample_externals_def)
  from test1_round_trip [OF sep j] show ?thesis by (rule conjunct2)
qed

end
